theory Spec2Isabelle
  imports Complex_Main "HOL-Library.Word" "HOL-Library.Sublist"
begin

section \<open>Python values shared by the three modules\<close>

text \<open>
  The retrieval package has three modules: \<^verbatim>\<open>fallback_embeddings.py\<close> (the hash
  embedder and an optional HTTP client), \<^verbatim>\<open>st_patch.py\<close> (the \<^verbatim>\<open>_lzma\<close> shim) and
  \<^verbatim>\<open>initialize.py\<close> (\<^verbatim>\<open>ensure_embedding_function\<close>). Exceptions are values of type
  \<open>exn\<close>; a function that may raise returns \<open>exn + 'a\<close> with \<open>Inl\<close> for the raise.
\<close>

datatype exn_class =
    ImportError | ModuleNotFoundError | AttributeError | TypeError | ValueError
  | KeyError | UnicodeEncodeError | HTTPError | RequestException | JSONDecodeError
  | CalledProcessError | OtherException string

datatype exn = Exn exn_class string | HTTPException nat string

text \<open>A natural number in decimal, as an f-string prints it.\<close>

fun decimal :: "nat \<Rightarrow> string" where
  "decimal n =
     (if n < 10 then [char_of (48 + n)]
      else decimal (n div 10) @ [char_of (48 + n mod 10)])"

declare decimal.simps [simp del]

text \<open>
  \<^verbatim>\<open>str(e)\<close>, as the f-strings of the log messages use it: the message of the
  exception, and \<^verbatim>\<open>f"{self.status_code}: {self.detail}"\<close> for an \<^verbatim>\<open>HTTPException\<close>.
\<close>

fun str_exn :: "exn \<Rightarrow> string" where
  "str_exn (Exn c msg) = msg"
| "str_exn (HTTPException code detail) = decimal code @ '': '' @ detail"

text \<open>\<^verbatim>\<open>except ImportError\<close> catches the class and its subclass \<^verbatim>\<open>ModuleNotFoundError\<close>.\<close>

fun is_ImportError :: "exn \<Rightarrow> bool" where
  "is_ImportError (Exn ImportError msg) = True"
| "is_ImportError (Exn ModuleNotFoundError msg) = True"
| "is_ImportError e = False"

text \<open>
  A Python \<^verbatim>\<open>str\<close> is a sequence of code points. Lone surrogates are legal in a
  \<^verbatim>\<open>str\<close> but have no UTF-8 encoding.
\<close>

type_synonym pystr = "nat list"
type_synonym bytes = "8 word list"

datatype json =
    JNull | JBool bool | JNum int | JStr string | JArr "json list"
  | JObj "(string \<times> json) list"

section \<open>fallback\_embeddings.py: the hash embedder\<close>

subsection \<open>Libraries the embedder calls\<close>

text \<open>
  \<^verbatim>\<open>hashlib\<close> and \<^verbatim>\<open>numpy\<close> are not part of the repository. The embedder is modelled
  over a record of the library functions it calls: the digest, the seeding of a
  \<^verbatim>\<open>RandomState\<close> (for a seed in range), one draw of the generator, the conversion to
  \<^verbatim>\<open>float32\<close>, the norm and the division of \<^verbatim>\<open>float32\<close> values. The digest is the
  256-bit number whose big-endian bytes are the 32 bytes of \<^verbatim>\<open>digest()\<close>. Floats are read as
  the reals they denote; rounding lives inside the library functions.
\<close>

record 's pylib =
  sha256 :: "bytes \<Rightarrow> 256 word"
  mt_seed :: "nat \<Rightarrow> 's"
  random_sample :: "'s \<Rightarrow> real \<times> 's"
  astype_float32 :: "real \<Rightarrow> real"
  linalg_norm :: "real list \<Rightarrow> real"
  true_divide :: "real \<Rightarrow> real \<Rightarrow> real"

subsection \<open>\<^verbatim>\<open>text.encode('utf-8')\<close>\<close>

definition encode_code_point :: "nat \<Rightarrow> exn + bytes" where
  "encode_code_point c =
     (if c < 0x80 then Inr [of_nat c]
      else if c < 0x800 then Inr [of_nat (0xC0 + c div 64), of_nat (0x80 + c mod 64)]
      else if 0xD800 \<le> c \<and> c \<le> 0xDFFF
        then Inl (Exn UnicodeEncodeError ''surrogates not allowed'')
      else if c < 0x10000
        then Inr [of_nat (0xE0 + c div 4096), of_nat (0x80 + (c div 64) mod 64),
                  of_nat (0x80 + c mod 64)]
      else if c < 0x110000
        then Inr [of_nat (0xF0 + c div 262144), of_nat (0x80 + (c div 4096) mod 64),
                  of_nat (0x80 + (c div 64) mod 64), of_nat (0x80 + c mod 64)]
      else Inl (Exn ValueError ''not a code point''))"

fun utf8_encode :: "pystr \<Rightarrow> exn + bytes" where
  "utf8_encode [] = Inr []"
| "utf8_encode (c # cs) =
     (case encode_code_point c of
        Inl e \<Rightarrow> Inl e
      | Inr bs \<Rightarrow> (case utf8_encode cs of Inl e \<Rightarrow> Inl e | Inr rest \<Rightarrow> Inr (bs @ rest)))"

text \<open>
  Well-formed text: every element is a Unicode scalar value (a code point that is not a
  surrogate).
\<close>

definition well_formed_text :: "pystr \<Rightarrow> bool" where
  "well_formed_text t = list_all (\<lambda>c. c < 0x110000 \<and> \<not> (0xD800 \<le> c \<and> c \<le> 0xDFFF)) t"

subsection \<open>\<^verbatim>\<open>hexdigest()\<close> and \<^verbatim>\<open>int(s, 16)\<close>\<close>

definition hex_digit :: "nat \<Rightarrow> char" where
  "hex_digit n = char_of (if n < 10 then 48 + n else 87 + n)"

text \<open>\<open>hex_fixed k n\<close>: the \<open>k\<close> lowest hexadecimal digits of \<open>n\<close>, most significant first.\<close>

fun hex_fixed :: "nat \<Rightarrow> nat \<Rightarrow> string" where
  "hex_fixed 0 n = []"
| "hex_fixed (Suc k) n = hex_fixed k (n div 16) @ [hex_digit (n mod 16)]"

text \<open>
  The 32 bytes of the digest in order, two lower-case hexadecimal digits each: the 64
  hexadecimal digits of the number.
\<close>

definition hexdigest :: "256 word \<Rightarrow> string" where
  "hexdigest d = hex_fixed 64 (unat d)"

definition hex_val :: "char \<Rightarrow> nat option" where
  "hex_val c =
     (let k = (of_char c :: nat) in
      if 48 \<le> k \<and> k \<le> 57 then Some (k - 48)
      else if 97 \<le> k \<and> k \<le> 102 then Some (k - 87)
      else if 65 \<le> k \<and> k \<le> 70 then Some (k - 55)
      else None)"

fun int16_acc :: "int \<Rightarrow> string \<Rightarrow> exn + int" where
  "int16_acc acc [] = Inr acc"
| "int16_acc acc (c # cs) =
     (case hex_val c of
        None \<Rightarrow> Inl (Exn ValueError ''invalid literal for int() with base 16'')
      | Some d \<Rightarrow> int16_acc (16 * acc + int d) cs)"

text \<open>
  \<^verbatim>\<open>int(s, 16)\<close> on a string of hexadecimal digits. Python also accepts a sign, a
  \<^verbatim>\<open>0x\<close> prefix, underscores and surrounding blanks; \<^verbatim>\<open>hexdigest\<close> produces none of
  them, and they are not modelled.
\<close>

definition int_base16 :: "string \<Rightarrow> exn + int" where
  "int_base16 s =
     (if s = [] then Inl (Exn ValueError ''invalid literal for int() with base 16'')
      else int16_acc 0 s)"

subsection \<open>\<^verbatim>\<open>np.random.RandomState(seed)\<close> and \<^verbatim>\<open>rng.rand(n)\<close>\<close>

text \<open>The constructor refuses a seed outside \<open>0 .. 2^32 - 1\<close>.\<close>

definition RandomState :: "'s pylib \<Rightarrow> int \<Rightarrow> exn + 's" where
  "RandomState lib seed =
     (if 0 \<le> seed \<and> seed \<le> 2 ^ 32 - 1 then Inr (mt_seed lib (nat seed))
      else Inl (Exn ValueError ''Seed must be between 0 and 2**32 - 1''))"

text \<open>\<^verbatim>\<open>rand(n)\<close> fills an array with \<open>n\<close> successive draws.\<close>

fun rand :: "'s pylib \<Rightarrow> nat \<Rightarrow> 's \<Rightarrow> real list \<times> 's" where
  "rand lib 0 st = ([], st)"
| "rand lib (Suc n) st =
     (case random_sample lib st of
        (x, st') \<Rightarrow> (case rand lib n st' of (xs, st'') \<Rightarrow> (x # xs, st'')))"

subsection \<open>The class \<^verbatim>\<open>FallbackEmbeddingModel\<close>\<close>

record FallbackEmbeddingModel =
  model_name :: string
  embedding_size :: nat

datatype texts = Str pystr | Seq "pystr list"

datatype embedding = Vector "real list" | Vectors "real list list"

text \<open>
  \<^verbatim>\<open>int(hashlib.sha256(text.encode('utf-8')).hexdigest(), 16) % 10**8\<close>
\<close>

definition text_hash :: "'s pylib \<Rightarrow> pystr \<Rightarrow> exn + int" where
  "text_hash lib text =
     (case utf8_encode text of
        Inl e \<Rightarrow> Inl e
      | Inr bs \<Rightarrow>
          (case int_base16 (hexdigest (sha256 lib bs)) of
             Inl e \<Rightarrow> Inl e
           | Inr n \<Rightarrow> Inr (n mod 10 ^ 8)))"

definition hash_to_vector :: "'s pylib \<Rightarrow> FallbackEmbeddingModel \<Rightarrow> pystr \<Rightarrow> exn + real list" where
  "hash_to_vector lib self text =
     (case text_hash lib text of
        Inl e \<Rightarrow> Inl e
      | Inr h \<Rightarrow>
          (case RandomState lib h of
             Inl e \<Rightarrow> Inl e
           | Inr rng \<Rightarrow>
               (let vector = map (astype_float32 lib) (fst (rand lib (embedding_size self) rng));
                    norm = linalg_norm lib vector;
                    vector = (if norm > 0 then map (\<lambda>x. true_divide lib x norm) vector
                              else vector)
                in Inr vector)))"

text \<open>The list comprehension of \<^verbatim>\<open>encode\<close>: it stops at the first element that raises.\<close>

fun hash_each :: "'s pylib \<Rightarrow> FallbackEmbeddingModel \<Rightarrow> pystr list \<Rightarrow> exn + real list list" where
  "hash_each lib self [] = Inr []"
| "hash_each lib self (t # ts) =
     (case hash_to_vector lib self t of
        Inl e \<Rightarrow> Inl e
      | Inr v \<Rightarrow> (case hash_each lib self ts of Inl e \<Rightarrow> Inl e | Inr vs \<Rightarrow> Inr (v # vs)))"

definition encode :: "'s pylib \<Rightarrow> FallbackEmbeddingModel \<Rightarrow> texts \<Rightarrow> exn + embedding" where
  "encode lib self txts =
     (case txts of
        Str t \<Rightarrow> (case hash_to_vector lib self t of Inl e \<Rightarrow> Inl e | Inr v \<Rightarrow> Inr (Vector v))
      | Seq ts \<Rightarrow> (case hash_each lib self ts of Inl e \<Rightarrow> Inl e | Inr vs \<Rightarrow> Inr (Vectors vs)))"


section \<open>The process: module registry, log, external calls, application state\<close>

datatype level = DEBUG | INFO | WARNING | ERROR

text \<open>
  What \<^verbatim>\<open>sys.modules\<close> can hold here: a module that was really imported, or an instance
  of one of the two \<^verbatim>\<open>MockLZMA\<close> classes (one per source file).
\<close>

datatype pymodule = Module string | MockLZMA_fallback_embeddings | MockLZMA_st_patch

text \<open>
  \<^verbatim>\<open>request.app.state.ef\<close> holds the hash model or an object built by the external
  \<^verbatim>\<open>get_ef\<close>, of which only an identity and \<^verbatim>\<open>hasattr(ef, 'encode')\<close> matter here.
\<close>

datatype model = HashModel FallbackEmbeddingModel | ExternalModel nat bool

fun has_encode :: "model \<Rightarrow> bool" where
  "has_encode (HashModel m) = True"
| "has_encode (ExternalModel ident b) = b"

text \<open>
  \<^verbatim>\<open>request.app.state.EMBEDDING_FUNCTION\<close> holds what the external
  \<^verbatim>\<open>get_embedding_function\<close> returned, or one of the lambdas of \<^verbatim>\<open>initialize.py\<close>:
  the one over \<^verbatim>\<open>request.app.state.ef.encode\<close> (line 65) or the one over a fresh
  \<^verbatim>\<open>fallback_model\<close> (lines 74 and 86).
\<close>

datatype efunc = Wrapped nat | DirectEf | DirectFallback FallbackEmbeddingModel

record response =
  status_code :: nat
  reason :: string
  resp_url :: string
  json_result :: "exn + json"

text \<open>
  Every call that leaves the repository is recorded with its outcome, in order. The
  outcome of a call is chosen by the environment from the calls made so far.
\<close>

datatype event =
    FindSpec string "exn + bool"
  | Import string "exn option"
  | PipInstall string "exn option"
  | GetEf string string bool "exn + model option"
  | GetEmbeddingFunction string string model string string int "exn + efunc option"
  | Post string "pystr list" "exn + response"

record env =
  find_spec :: "event list \<Rightarrow> string \<Rightarrow> exn + bool"
  import_module :: "event list \<Rightarrow> string \<Rightarrow> exn option"
  check_call_pip :: "event list \<Rightarrow> string \<Rightarrow> exn option"
  st_version :: "exn + string"
  get_ef :: "event list \<Rightarrow> string \<Rightarrow> string \<Rightarrow> bool \<Rightarrow> exn + model option"
  get_embedding_function ::
    "event list \<Rightarrow> string \<Rightarrow> string \<Rightarrow> model \<Rightarrow> string \<Rightarrow> string \<Rightarrow> int \<Rightarrow> exn + efunc option"
  requests_post :: "event list \<Rightarrow> string \<Rightarrow> pystr list \<Rightarrow> exn + response"
  RAG_EMBEDDING_MODEL_AUTO_UPDATE :: bool

record config =
  RAG_EMBEDDING_ENGINE :: string
  RAG_EMBEDDING_MODEL :: string
  RAG_OPENAI_API_BASE_URL :: string
  RAG_OLLAMA_BASE_URL :: string
  RAG_OPENAI_API_KEY :: string
  RAG_OLLAMA_API_KEY :: string
  RAG_EMBEDDING_BATCH_SIZE :: int

record world =
  sys_modules :: "string \<rightharpoonup> pymodule"
  log_records :: "(level \<times> string) list"
  calls :: "event list"
  config :: config
  ef :: "model option"
  EMBEDDING_FUNCTION :: "efunc option"

subsection \<open>Sequencing, raising and catching\<close>

type_synonym 'a comp = "world \<Rightarrow> (exn + 'a) \<times> world"

definition ret :: "'a \<Rightarrow> 'a comp" where
  "ret a w = (Inr a, w)"

definition raise :: "exn \<Rightarrow> 'a comp" where
  "raise e w = (Inl e, w)"

definition bindE :: "'a comp \<Rightarrow> ('a \<Rightarrow> 'b comp) \<Rightarrow> 'b comp" where
  "bindE m f w = (case m w of (Inl e, w') \<Rightarrow> (Inl e, w') | (Inr a, w') \<Rightarrow> f a w')"

text \<open>\<^verbatim>\<open>try: m  except Exception as e: h e\<close>\<close>

definition try_except :: "'a comp \<Rightarrow> (exn \<Rightarrow> 'a comp) \<Rightarrow> 'a comp" where
  "try_except m h w = (case m w of (Inl e, w') \<Rightarrow> h e w' | (Inr a, w') \<Rightarrow> (Inr a, w'))"

text \<open>\<^verbatim>\<open>try: m  except ImportError as e: h e\<close>: any other exception passes through.\<close>

definition try_except_ImportError :: "'a comp \<Rightarrow> (exn \<Rightarrow> 'a comp) \<Rightarrow> 'a comp" where
  "try_except_ImportError m h = try_except m (\<lambda>e. if is_ImportError e then h e else raise e)"

definition logm :: "level \<Rightarrow> string \<Rightarrow> unit comp" where
  "logm lvl msg w = (Inr (), w\<lparr>log_records := log_records w @ [(lvl, msg)]\<rparr>)"

definition set_module :: "string \<Rightarrow> pymodule \<Rightarrow> unit comp" where
  "set_module name m w = (Inr (), w\<lparr>sys_modules := (sys_modules w)(name \<mapsto> m)\<rparr>)"

definition set_ef :: "model option \<Rightarrow> unit comp" where
  "set_ef m w = (Inr (), w\<lparr>ef := m\<rparr>)"

definition set_EMBEDDING_FUNCTION :: "efunc option \<Rightarrow> unit comp" where
  "set_EMBEDDING_FUNCTION f w = (Inr (), w\<lparr>EMBEDDING_FUNCTION := f\<rparr>)"

subsection \<open>Calls that leave the repository\<close>

text \<open>
  \<^verbatim>\<open>import name\<close> of a module outside the repository: a module already in
  \<^verbatim>\<open>sys.modules\<close> is reused; otherwise the environment decides, and a module that
  loads is registered under its name. The other entries a real import adds (its parent
  packages, the modules it imports in turn) are left out.
\<close>

definition py_import :: "env \<Rightarrow> string \<Rightarrow> unit comp" where
  "py_import env name w =
     (if sys_modules w name \<noteq> None then (Inr (), w)
      else
        (case import_module env (calls w) name of
           Some e \<Rightarrow> (Inl e, w\<lparr>calls := calls w @ [Import name (Some e)]\<rparr>)
         | None \<Rightarrow>
             (Inr (), w\<lparr>calls := calls w @ [Import name None],
                        sys_modules := (sys_modules w)(name \<mapsto> Module name)\<rparr>)))"

definition call_find_spec :: "env \<Rightarrow> string \<Rightarrow> bool comp" where
  "call_find_spec env name w =
     (let r = find_spec env (calls w) name
      in (r, w\<lparr>calls := calls w @ [FindSpec name r]\<rparr>))"

definition call_pip_install :: "env \<Rightarrow> string \<Rightarrow> unit comp" where
  "call_pip_install env pkg w =
     (let r = check_call_pip env (calls w) pkg;
          w' = w\<lparr>calls := calls w @ [PipInstall pkg r]\<rparr>
      in (case r of Some e \<Rightarrow> (Inl e, w') | None \<Rightarrow> (Inr (), w')))"

definition call_get_ef :: "env \<Rightarrow> string \<Rightarrow> string \<Rightarrow> bool \<Rightarrow> (model option) comp" where
  "call_get_ef env engine name auto_update w =
     (let r = get_ef env (calls w) engine name auto_update
      in (r, w\<lparr>calls := calls w @ [GetEf engine name auto_update r]\<rparr>))"

definition call_get_embedding_function ::
  "env \<Rightarrow> string \<Rightarrow> string \<Rightarrow> model \<Rightarrow> string \<Rightarrow> string \<Rightarrow> int \<Rightarrow> (efunc option) comp" where
  "call_get_embedding_function env engine name m url key batch w =
     (let r = get_embedding_function env (calls w) engine name m url key batch
      in (r, w\<lparr>calls := calls w @ [GetEmbeddingFunction engine name m url key batch r]\<rparr>))"

definition call_requests_post :: "env \<Rightarrow> string \<Rightarrow> pystr list \<Rightarrow> response comp" where
  "call_requests_post env url txts w =
     (let r = requests_post env (calls w) url txts
      in (r, w\<lparr>calls := calls w @ [Post url txts r]\<rparr>))"

section \<open>fallback\_embeddings.py: the rest of the module\<close>

subsection \<open>Module body, run at the first import (lines 1 to 26)\<close>

text \<open>
  The standard-library imports always succeed; \<^verbatim>\<open>numpy\<close> and \<^verbatim>\<open>requests\<close> may be
  missing. Lines 11 to 24 register something under \<^verbatim>\<open>_lzma\<close> when nothing is.
\<close>

definition fallback_embeddings_lzma_block :: "env \<Rightarrow> unit comp" where
  "fallback_embeddings_lzma_block env w =
     (if sys_modules w ''_lzma'' = None then
        try_except_ImportError
          (bindE (py_import env ''backports.lzma'') (\<lambda>_.
           bindE (set_module ''_lzma'' (Module ''backports.lzma'')) (\<lambda>_.
           logm INFO ''Successfully loaded backports.lzma as _lzma'')))
          (\<lambda>e.
           bindE (set_module ''_lzma'' MockLZMA_fallback_embeddings) (\<lambda>_.
           logm INFO ''Created mock _lzma module'')) w
      else ret () w)"

definition import_fallback_embeddings :: "env \<Rightarrow> unit comp" where
  "import_fallback_embeddings env w =
     (if sys_modules w ''open_webui.retrieval.fallback_embeddings'' \<noteq> None then ret () w
      else
        bindE (py_import env ''numpy'') (\<lambda>_.
        bindE (py_import env ''requests'') (\<lambda>_.
        bindE (fallback_embeddings_lzma_block env) (\<lambda>_.
        set_module ''open_webui.retrieval.fallback_embeddings''
          (Module ''open_webui.retrieval.fallback_embeddings'')))) w)"

subsection \<open>The two \<^verbatim>\<open>MockLZMA\<close> classes\<close>

text \<open>
  \<^verbatim>\<open>__getattr__\<close> returns \<^verbatim>\<open>lambda *args, **kwargs: None\<close>. The class of
  \<^verbatim>\<open>fallback_embeddings.py\<close> logs a warning first; the class of \<^verbatim>\<open>st_patch.py\<close>
  (lines 37 to 39) does not.
\<close>

datatype callable = NoopLambda

definition call_callable :: "callable \<Rightarrow> json list \<Rightarrow> json comp" where
  "call_callable f args w = (case f of NoopLambda \<Rightarrow> (Inr JNull, w))"

definition MockLZMA_getattr_fallback_embeddings :: "string \<Rightarrow> callable comp" where
  "MockLZMA_getattr_fallback_embeddings name =
     bindE (logm WARNING (''Mock _lzma.'' @ name @ '' was called'')) (\<lambda>_. ret NoopLambda)"

definition MockLZMA_getattr_st_patch :: "string \<Rightarrow> callable comp" where
  "MockLZMA_getattr_st_patch name = ret NoopLambda"

subsection \<open>Construction of the model\<close>

definition FallbackEmbeddingModel_init :: "string \<Rightarrow> FallbackEmbeddingModel comp" where
  "FallbackEmbeddingModel_init name =
     bindE (logm INFO (''Initialized FallbackEmbeddingModel: '' @ name)) (\<lambda>_.
     ret \<lparr>model_name = name, embedding_size = 384\<rparr>)"

definition get_fallback_embedding_model :: "FallbackEmbeddingModel comp" where
  "get_fallback_embedding_model = FallbackEmbeddingModel_init ''fallback/text-hash-embedding''"

subsection \<open>\<^verbatim>\<open>try_external_embeddings\<close>\<close>

text \<open>
  \<^verbatim>\<open>response.raise_for_status()\<close> of \<^verbatim>\<open>requests\<close>: it raises for 400 to 599, with the
  message \<^verbatim>\<open>f"{status_code} Client Error: {reason} for url: {url}"\<close> below 500 and the same
  with \<^verbatim>\<open>Server Error\<close> from 500 on.
\<close>

definition raise_for_status :: "response \<Rightarrow> unit comp" where
  "raise_for_status r =
     (if 400 \<le> status_code r \<and> status_code r < 500
      then raise (Exn HTTPError
             (decimal (status_code r) @ '' Client Error: '' @ reason r @ '' for url: '' @ resp_url r))
      else if 500 \<le> status_code r \<and> status_code r < 600
      then raise (Exn HTTPError
             (decimal (status_code r) @ '' Server Error: '' @ reason r @ '' for url: '' @ resp_url r))
      else ret ())"

definition response_json :: "response \<Rightarrow> json comp" where
  "response_json r = (case json_result r of Inl e \<Rightarrow> raise e | Inr j \<Rightarrow> ret j)"

text \<open>
  \<^verbatim>\<open>key in result\<close> for a string key: key membership in a dict, element membership in
  a list, substring test in a string, \<^verbatim>\<open>TypeError\<close> otherwise. A dict is given by its
  items in document order; for a repeated key the last item counts.
\<close>

fun py_contains :: "string \<Rightarrow> json \<Rightarrow> exn + bool" where
  "py_contains k (JObj kvs) = Inr (k \<in> set (map fst kvs))"
| "py_contains k (JArr xs) = Inr (JStr k \<in> set xs)"
| "py_contains k (JStr s) = Inr (sublist k s)"
| "py_contains k j = Inl (Exn TypeError ''argument is not iterable'')"

fun py_getitem :: "json \<Rightarrow> string \<Rightarrow> exn + json" where
  "py_getitem (JObj kvs) k =
     (case map_of (rev kvs) k of None \<Rightarrow> Inl (Exn KeyError k) | Some v \<Rightarrow> Inr v)"
| "py_getitem j k = Inl (Exn TypeError ''indices must be integers'')"

definition lift :: "exn + 'a \<Rightarrow> 'a comp" where
  "lift r w = (r, w)"

text \<open>
  The \<^verbatim>\<open>try\<close> block of lines 82 to 92: \<open>Some v\<close> when it returns \<open>v\<close>, \<open>None\<close> when it
  falls through to the final \<^verbatim>\<open>return None\<close>. Python's \<^verbatim>\<open>None\<close> is \<open>JNull\<close>.
\<close>

definition external_embeddings_request :: "env \<Rightarrow> texts \<Rightarrow> string \<Rightarrow> (json option) comp" where
  "external_embeddings_request env text api_url =
     bindE (call_requests_post env api_url (case text of Str t \<Rightarrow> [t] | Seq ts \<Rightarrow> ts)) (\<lambda>response.
     bindE (raise_for_status response) (\<lambda>_.
     bindE (response_json response) (\<lambda>result.
     bindE (lift (py_contains ''embeddings'' result)) (\<lambda>present.
     if present then bindE (lift (py_getitem result ''embeddings'')) (\<lambda>v. ret (Some v))
     else ret None))))"

definition try_external_embeddings :: "env \<Rightarrow> texts \<Rightarrow> string option \<Rightarrow> json comp" where
  "try_external_embeddings env text api_url =
     (case api_url of
        None \<Rightarrow> ret JNull
      | Some url \<Rightarrow>
          if url = [] then ret JNull
          else
            bindE
              (try_except (external_embeddings_request env text url)
                 (\<lambda>e. bindE (logm WARNING (''External embedding API call failed: '' @ str_exn e))
                        (\<lambda>_. ret None)))
              (\<lambda>r. case r of Some v \<Rightarrow> ret v | None \<Rightarrow> ret JNull))"


section \<open>st\_patch.py\<close>

text \<open>
  Lines 19 to 42 of \<^verbatim>\<open>patch_sentence_transformers\<close>. The inner \<^verbatim>\<open>try\<close> catches every
  exception (a failed \<^verbatim>\<open>pip install\<close> or a failed second import) and registers an
  instance of the module's own \<^verbatim>\<open>MockLZMA\<close>. An exception of the first import that is
  not an \<^verbatim>\<open>ImportError\<close> leaves the function.
\<close>

definition st_patch_lzma_block :: "env \<Rightarrow> unit comp" where
  "st_patch_lzma_block env w =
     (if sys_modules w ''_lzma'' = None then
        try_except_ImportError
          (bindE (py_import env ''backports.lzma'') (\<lambda>_.
           bindE (set_module ''_lzma'' (Module ''backports.lzma'')) (\<lambda>_.
           logm INFO ''Successfully loaded backports.lzma as _lzma'')))
          (\<lambda>_.
           bindE (logm WARNING ''Could not import backports.lzma'') (\<lambda>_.
           try_except
             (bindE (call_pip_install env ''backports.lzma'') (\<lambda>_.
              bindE (py_import env ''backports.lzma'') (\<lambda>_.
              bindE (set_module ''_lzma'' (Module ''backports.lzma'')) (\<lambda>_.
              logm INFO ''Successfully installed and loaded backports.lzma''))))
             (\<lambda>e.
              bindE (logm ERROR (''Failed to install backports.lzma: '' @ str_exn e)) (\<lambda>_.
              bindE (set_module ''_lzma'' MockLZMA_st_patch) (\<lambda>_.
              logm INFO ''Created mock _lzma module''))))) w
      else ret () w)"

text \<open>\<^verbatim>\<open>sentence_transformers.__version__\<close>: the attribute may be missing.\<close>

definition import_sentence_transformers :: "env \<Rightarrow> bool comp" where
  "import_sentence_transformers env =
     try_except_ImportError
       (bindE (py_import env ''sentence_transformers'') (\<lambda>_.
        bindE (lift (st_version env)) (\<lambda>v.
        bindE (logm INFO (''Successfully imported sentence_transformers '' @ v)) (\<lambda>_.
        ret True))))
       (\<lambda>e.
        bindE (logm ERROR (''Failed to import sentence_transformers: '' @ str_exn e)) (\<lambda>_.
        ret False))"

definition patch_sentence_transformers :: "env \<Rightarrow> bool comp" where
  "patch_sentence_transformers env =
     bindE (call_find_spec env ''sentence_transformers'') (\<lambda>found.
     if \<not> found then
       bindE (logm WARNING ''sentence_transformers package not found'') (\<lambda>_. ret False)
     else
       bindE (st_patch_lzma_block env) (\<lambda>_. import_sentence_transformers env))"

section \<open>initialize.py\<close>

text \<open>
  \<^verbatim>\<open>from open_webui.retrieval.st_patch import patch_sentence_transformers\<close>: the module
  imports the standard library only, so its first import registers it and cannot fail.
\<close>

definition import_st_patch :: "unit comp" where
  "import_st_patch w =
     (if sys_modules w ''open_webui.retrieval.st_patch'' \<noteq> None then ret () w
      else set_module ''open_webui.retrieval.st_patch''
             (Module ''open_webui.retrieval.st_patch'') w)"

text \<open>Lines 18 to 20.\<close>

definition patch_if_local :: "env \<Rightarrow> unit comp" where
  "patch_if_local env w =
     (if RAG_EMBEDDING_ENGINE (config w) = [] then
        bindE import_st_patch (\<lambda>_.
        bindE (patch_sentence_transformers env) (\<lambda>_. ret ())) w
      else ret () w)"

text \<open>Lines 34 to 39: the inner \<^verbatim>\<open>try\<close> that builds the hash model into \<^verbatim>\<open>ef\<close>.\<close>

definition try_fallback_ef :: "env \<Rightarrow> unit comp" where
  "try_fallback_ef env =
     try_except
       (bindE (import_fallback_embeddings env) (\<lambda>_.
        bindE get_fallback_embedding_model (\<lambda>m.
        bindE (set_ef (Some (HashModel m))) (\<lambda>_.
        logm INFO ''Using fallback embedding model''))))
       (\<lambda>fallback_error.
        logm ERROR (''Failed to initialize fallback embedding model: '' @ str_exn fallback_error))"

text \<open>Lines 23 to 39.\<close>

definition initialize_ef :: "env \<Rightarrow> unit comp" where
  "initialize_ef env w =
     (if ef w = None then
        bindE (logm INFO (''Initializing ef with engine: '' @ RAG_EMBEDDING_ENGINE (config w)
                 @ '', model: '' @ RAG_EMBEDDING_MODEL (config w))) (\<lambda>_.
        bindE (call_get_ef env (RAG_EMBEDDING_ENGINE (config w)) (RAG_EMBEDDING_MODEL (config w))
                 (RAG_EMBEDDING_MODEL_AUTO_UPDATE env)) (\<lambda>r.
        bindE (set_ef r) (\<lambda>_ w1.
        if ef w1 = None then
          bindE (logm WARNING ''Primary embedding function initialization failed. Trying fallback.'')
            (\<lambda>_. try_fallback_ef env) w1
        else ret () w1))) w
      else ret () w)"

text \<open>Lines 42 to 67.\<close>

definition initialize_EMBEDDING_FUNCTION :: "env \<Rightarrow> unit comp" where
  "initialize_EMBEDDING_FUNCTION env w =
     (case ef w of
        None \<Rightarrow> ret () w
      | Some m \<Rightarrow>
          try_except
            (bindE (call_get_embedding_function env
                      (RAG_EMBEDDING_ENGINE (config w))
                      (RAG_EMBEDDING_MODEL (config w))
                      m
                      (if RAG_EMBEDDING_ENGINE (config w) = ''openai''
                       then RAG_OPENAI_API_BASE_URL (config w) else RAG_OLLAMA_BASE_URL (config w))
                      (if RAG_EMBEDDING_ENGINE (config w) = ''openai''
                       then RAG_OPENAI_API_KEY (config w) else RAG_OLLAMA_API_KEY (config w))
                      (RAG_EMBEDDING_BATCH_SIZE (config w)))
               set_EMBEDDING_FUNCTION)
            (\<lambda>e.
             bindE (logm ERROR (''Error in get_embedding_function: '' @ str_exn e)) (\<lambda>_.
             if has_encode m then
               bindE (logm INFO ''Creating direct wrapper for embedding function'') (\<lambda>_.
               set_EMBEDDING_FUNCTION (Some DirectEf))
             else ret ())) w)"

text \<open>Lines 70 to 76.\<close>

definition final_fallback :: "env \<Rightarrow> unit comp" where
  "final_fallback env w =
     (if EMBEDDING_FUNCTION w = None then
        bindE (logm WARNING ''Creating final fallback embedding function'') (\<lambda>_.
        bindE (import_fallback_embeddings env) (\<lambda>_.
        bindE get_fallback_embedding_model (\<lambda>fallback_model.
        set_EMBEDDING_FUNCTION (Some (DirectFallback fallback_model))))) w
      else ret () w)"

text \<open>The body of the outer \<^verbatim>\<open>try\<close>, lines 17 to 79.\<close>

definition try_body :: "env \<Rightarrow> bool comp" where
  "try_body env =
     bindE (patch_if_local env) (\<lambda>_.
     bindE (initialize_ef env) (\<lambda>_.
     bindE (initialize_EMBEDDING_FUNCTION env) (\<lambda>_.
     bindE (final_fallback env) (\<lambda>_.
     bindE (logm INFO ''Successfully initialized embedding function'') (\<lambda>_.
     ret True)))))"

text \<open>
  The outer handler, lines 80 to 96. The detail of the \<^verbatim>\<open>HTTPException\<close> quotes the
  first exception \<^verbatim>\<open>e\<close>, not \<^verbatim>\<open>final_error\<close>; 500 is
  \<^verbatim>\<open>status.HTTP_500_INTERNAL_SERVER_ERROR\<close>.
\<close>

definition except_handler :: "env \<Rightarrow> exn \<Rightarrow> bool comp" where
  "except_handler env e =
     bindE (logm ERROR (''Error initializing embedding function: '' @ str_exn e)) (\<lambda>_.
     try_except
       (bindE (import_fallback_embeddings env) (\<lambda>_.
        bindE get_fallback_embedding_model (\<lambda>fallback_model.
        bindE (set_EMBEDDING_FUNCTION (Some (DirectFallback fallback_model))) (\<lambda>_.
        bindE (logm INFO ''Created minimal fallback embedding function after error'') (\<lambda>_.
        ret True)))))
       (\<lambda>final_error.
        bindE (logm ERROR (''Fatal error initializing any embedding function: ''
                 @ str_exn final_error)) (\<lambda>_.
        raise (HTTPException 500 (''Failed to initialize embedding function: '' @ str_exn e)))))"

definition ensure_embedding_function :: "env \<Rightarrow> bool comp" where
  "ensure_embedding_function env w =
     (if EMBEDDING_FUNCTION w = None \<or> ef w = None then
        bindE (logm WARNING ''Embedding function not initialized. Attempting to initialize.'')
          (\<lambda>_. try_except (try_body env) (except_handler env)) w
      else ret True w)"


section \<open>Concrete inputs\<close>

text \<open>
  A small stand-in for the libraries, to run the embedder on concrete texts, and a
  variant of it whose generator draws zeros only; an instance whose \<^verbatim>\<open>embedding_size\<close>
  was set to 2; and the model that \<^verbatim>\<open>get_fallback_embedding_model()\<close> builds.
\<close>

definition demo_lib :: "nat pylib" where
  "demo_lib =
     \<lparr>sha256 = (\<lambda>bs. of_nat (length bs)),
      mt_seed = (\<lambda>seed. seed),
      random_sample = (\<lambda>s. (1 / 2, Suc s)),
      astype_float32 = (\<lambda>x. x),
      linalg_norm = (\<lambda>v. sqrt (sum_list (map (\<lambda>x. x * x) v))),
      true_divide = (\<lambda>x y. x / y)\<rparr>"

definition zero_lib :: "nat pylib" where
  "zero_lib = demo_lib\<lparr>random_sample := (\<lambda>s. (0, Suc s))\<rparr>"

definition tiny_model :: FallbackEmbeddingModel where
  "tiny_model = \<lparr>model_name = ''tiny'', embedding_size = 2\<rparr>"

definition default_model :: FallbackEmbeddingModel where
  "default_model = \<lparr>model_name = ''fallback/text-hash-embedding'', embedding_size = 384\<rparr>"

text \<open>The inputs of \<^verbatim>\<open>encode\<close> whose strings all have a UTF-8 encoding.\<close>

definition well_formed_texts :: "texts \<Rightarrow> bool" where
  "well_formed_texts txts =
     (case txts of Str t \<Rightarrow> well_formed_text t | Seq ts \<Rightarrow> list_all well_formed_text ts)"

text \<open>
  A configuration for the local engine (the empty engine name), one for an API engine,
  and the application states and environments the concrete runs below start from.
\<close>

definition demo_config :: config where
  "demo_config =
     \<lparr>RAG_EMBEDDING_ENGINE = '''',
      RAG_EMBEDDING_MODEL = ''sentence-transformers/all-MiniLM-L6-v2'',
      RAG_OPENAI_API_BASE_URL = ''https://api.openai.com/v1'',
      RAG_OLLAMA_BASE_URL = ''http://localhost:11434'',
      RAG_OPENAI_API_KEY = ''sk'',
      RAG_OLLAMA_API_KEY = '''',
      RAG_EMBEDDING_BATCH_SIZE = 1\<rparr>"

definition openai_config :: config where
  "openai_config = demo_config\<lparr>RAG_EMBEDDING_ENGINE := ''openai'',
      RAG_EMBEDDING_MODEL := ''text-embedding-3-small''\<rparr>"

definition fresh_world :: world where
  "fresh_world =
     \<lparr>sys_modules = Map.empty, log_records = [], calls = [], config = demo_config,
      ef = None, EMBEDDING_FUNCTION = None\<rparr>"

text \<open>
  Both slots populated, as after a successful first initialisation.
\<close>

definition ready_world :: world where
  "ready_world =
     fresh_world\<lparr>ef := Some (ExternalModel 1 True), EMBEDDING_FUNCTION := Some (Wrapped 1)\<rparr>"

text \<open>
  The function slot populated and the model slot empty, as the outer handler leaves them.
\<close>

definition recovered_world :: world where
  "recovered_world =
     fresh_world\<lparr>config := openai_config,
       EMBEDDING_FUNCTION := Some (DirectFallback default_model)\<rparr>"

text \<open>
  An environment where every collaborator succeeds, and variants of it: the HTTP service
  answers 300; \<^verbatim>\<open>backports.lzma\<close> can be neither imported nor installed; \<^verbatim>\<open>get_ef\<close> raises;
  \<^verbatim>\<open>get_ef\<close> returns \<^verbatim>\<open>None\<close>.
\<close>

definition env_healthy :: env where
  "env_healthy =
     \<lparr>find_spec = (\<lambda>h name. Inr True),
      import_module = (\<lambda>h name. None),
      check_call_pip = (\<lambda>h pkg. None),
      st_version = Inr ''2.7.0'',
      get_ef = (\<lambda>h engine name auto. Inr (Some (ExternalModel 1 True))),
      get_embedding_function = (\<lambda>h engine name m url key batch. Inr (Some (Wrapped 1))),
      requests_post = (\<lambda>h url txts.
         Inr \<lparr>status_code = 200, reason = ''OK'', resp_url = url,
              json_result = Inr (JObj [(''embeddings'', JArr [JArr [JNum 1]])])\<rparr>),
      RAG_EMBEDDING_MODEL_AUTO_UPDATE = False\<rparr>"

definition env_status_300 :: env where
  "env_status_300 =
     env_healthy\<lparr>requests_post := (\<lambda>h url txts.
         Inr \<lparr>status_code = 300, reason = ''Multiple Choices'', resp_url = url,
              json_result = Inr (JObj [(''embeddings'', JArr [JArr [JNum 1]])])\<rparr>)\<rparr>"

definition env_no_backports :: env where
  "env_no_backports =
     env_healthy\<lparr>import_module := (\<lambda>h name.
         if name = ''backports.lzma''
         then Some (Exn ModuleNotFoundError ''No module named backports'') else None),
       check_call_pip := (\<lambda>h pkg. Some (Exn CalledProcessError ''pip returned non-zero exit status 1''))\<rparr>"

definition env_get_ef_raises :: env where
  "env_get_ef_raises =
     env_healthy\<lparr>get_ef := (\<lambda>h engine name auto.
        Inl (Exn (OtherException ''OSError'') ''model files not found''))\<rparr>"



section \<open>Vocabulary of the claims\<close>

text \<open>
  The result that claim C7 (as amended) promises for \<^verbatim>\<open>try_external_embeddings\<close>, case by
  case; it is written from the claim, to be compared with the function of the source.
\<close>

definition try_external_embeddings_spec :: "env \<Rightarrow> texts \<Rightarrow> string option \<Rightarrow> world \<Rightarrow> json" where
  "try_external_embeddings_spec env text api_url w =
     (case api_url of
        None \<Rightarrow> JNull
      | Some url \<Rightarrow>
          if url = [] then JNull
          else
            (case requests_post env (calls w) url (case text of Str t \<Rightarrow> [t] | Seq ts \<Rightarrow> ts) of
               Inl e \<Rightarrow> JNull
             | Inr response \<Rightarrow>
                 if 400 \<le> status_code response \<and> status_code response < 600 then JNull
                 else
                   (case json_result response of
                      Inr (JObj kvs) \<Rightarrow>
                        (case map_of (rev kvs) ''embeddings'' of None \<Rightarrow> JNull | Some v \<Rightarrow> v)
                    | _ \<Rightarrow> JNull)))"

text \<open>
  Kinds of recorded calls: primary construction (\<^verbatim>\<open>get_ef\<close>), calls of the module
  machinery, and the calls by which the shim obtains \<^verbatim>\<open>backports.lzma\<close>.
\<close>

fun is_GetEf :: "event \<Rightarrow> bool" where
  "is_GetEf (GetEf engine name auto r) = True"
| "is_GetEf e = False"

fun is_module_event :: "event \<Rightarrow> bool" where
  "is_module_event (FindSpec name r) = True"
| "is_module_event (Import name r) = True"
| "is_module_event (PipInstall pkg r) = True"
| "is_module_event e = False"

fun is_lzma_event :: "event \<Rightarrow> bool" where
  "is_lzma_event (PipInstall pkg r) = True"
| "is_lzma_event (Import name r) = (name = ''backports.lzma'')"
| "is_lzma_event e = False"

text \<open>
  \<open>imports_only w w'\<close>: from \<open>w\<close> to \<open>w'\<close> the two slots and the configuration are
  unchanged, an existing \<^verbatim>\<open>_lzma\<close> entry is unchanged, and only calls of the module
  machinery were made.
\<close>

definition imports_only :: "world \<Rightarrow> world \<Rightarrow> bool" where
  "imports_only w w' \<longleftrightarrow>
     ef w' = ef w \<and> EMBEDDING_FUNCTION w' = EMBEDDING_FUNCTION w \<and> config w' = config w \<and>
     (sys_modules w ''_lzma'' \<noteq> None \<longrightarrow> sys_modules w' ''_lzma'' = sys_modules w ''_lzma'') \<and>
     (\<exists>es. calls w' = calls w @ es \<and> list_all is_module_event es)"

text \<open>
  \<open>quiet\<close>: no primary construction was attempted; \<open>at_most_one_GetEf\<close>: at most one was.
\<close>

definition quiet :: "world \<Rightarrow> world \<Rightarrow> bool" where
  "quiet w w' \<longleftrightarrow>
     config w' = config w \<and>
     (\<exists>es. calls w' = calls w @ es \<and> list_all (\<lambda>e. \<not> is_GetEf e) es)"

definition at_most_one_GetEf :: "world \<Rightarrow> world \<Rightarrow> bool" where
  "at_most_one_GetEf w w' \<longleftrightarrow>
     config w' = config w \<and>
     (\<exists>es. calls w' = calls w @ es \<and> length (filter is_GetEf es) \<le> 1)"

text \<open>
  The condition of line 14, and the first call that leaves the repository once it holds:
  the shim's \<^verbatim>\<open>find_spec\<close> for the local engine, otherwise \<^verbatim>\<open>get_ef\<close> when the model slot
  is empty and \<^verbatim>\<open>get_embedding_function\<close> when it is not.
\<close>

definition needs_initialization :: "world \<Rightarrow> bool" where
  "needs_initialization w \<longleftrightarrow> EMBEDDING_FUNCTION w = None \<or> ef w = None"

definition first_call :: "env \<Rightarrow> world \<Rightarrow> event" where
  "first_call env w =
     (if RAG_EMBEDDING_ENGINE (config w) = []
      then FindSpec ''sentence_transformers'' (find_spec env (calls w) ''sentence_transformers'')
      else
        (case ef w of
           None \<Rightarrow>
             GetEf (RAG_EMBEDDING_ENGINE (config w)) (RAG_EMBEDDING_MODEL (config w))
               (RAG_EMBEDDING_MODEL_AUTO_UPDATE env)
               (get_ef env (calls w) (RAG_EMBEDDING_ENGINE (config w))
                  (RAG_EMBEDDING_MODEL (config w)) (RAG_EMBEDDING_MODEL_AUTO_UPDATE env))
         | Some m \<Rightarrow>
             GetEmbeddingFunction (RAG_EMBEDDING_ENGINE (config w)) (RAG_EMBEDDING_MODEL (config w)) m
               (if RAG_EMBEDDING_ENGINE (config w) = ''openai''
                then RAG_OPENAI_API_BASE_URL (config w) else RAG_OLLAMA_BASE_URL (config w))
               (if RAG_EMBEDDING_ENGINE (config w) = ''openai''
                then RAG_OPENAI_API_KEY (config w) else RAG_OLLAMA_API_KEY (config w))
               (RAG_EMBEDDING_BATCH_SIZE (config w))
               (get_embedding_function env (calls w) (RAG_EMBEDDING_ENGINE (config w))
                  (RAG_EMBEDDING_MODEL (config w)) m
                  (if RAG_EMBEDDING_ENGINE (config w) = ''openai''
                   then RAG_OPENAI_API_BASE_URL (config w) else RAG_OLLAMA_BASE_URL (config w))
                  (if RAG_EMBEDDING_ENGINE (config w) = ''openai''
                   then RAG_OPENAI_API_KEY (config w) else RAG_OLLAMA_API_KEY (config w))
                  (RAG_EMBEDDING_BATCH_SIZE (config w)))))"

text \<open>
  The module \<^verbatim>\<open>fallback_embeddings\<close> can always be imported: \<^verbatim>\<open>numpy\<close> and \<^verbatim>\<open>requests\<close>
  load, and a failing import of \<^verbatim>\<open>backports.lzma\<close> fails with an \<^verbatim>\<open>ImportError\<close>.
\<close>

definition fallback_importable :: "env \<Rightarrow> bool" where
  "fallback_importable env \<longleftrightarrow>
     (\<forall>h. import_module env h ''numpy'' = None \<and> import_module env h ''requests'' = None \<and>
          (\<forall>e. import_module env h ''backports.lzma'' = Some e \<longrightarrow> is_ImportError e))"





section \<open>Unfolding rules\<close>

lemmas comp_defs =
  bindE_def try_except_def try_except_ImportError_def ret_def raise_def lift_def logm_def
  set_module_def set_ef_def set_EMBEDDING_FUNCTION_def

lemmas call_defs =
  py_import_def call_find_spec_def call_pip_install_def call_get_ef_def
  call_get_embedding_function_def call_requests_post_def

lemmas module_defs =
  fallback_embeddings_lzma_block_def import_fallback_embeddings_def
  FallbackEmbeddingModel_init_def get_fallback_embedding_model_def
  st_patch_lzma_block_def import_sentence_transformers_def patch_sentence_transformers_def

lemmas initialize_defs =
  import_st_patch_def patch_if_local_def try_fallback_ef_def initialize_ef_def
  initialize_EMBEDDING_FUNCTION_def final_fallback_def try_body_def except_handler_def
  ensure_embedding_function_def

section \<open>The hash embedder: lemmas\<close>

lemma hex_val_hex_digit: "n < 16 \<Longrightarrow> hex_val (hex_digit n) = Some n"
  by (auto simp: hex_val_def hex_digit_def Let_def)

lemma int16_acc_append:
  "int16_acc acc (xs @ ys) = (case int16_acc acc xs of Inl e \<Rightarrow> Inl e | Inr a \<Rightarrow> int16_acc a ys)"
  by (induction xs arbitrary: acc) (auto split: option.splits)

lemma int16_acc_hex_fixed:
  "int16_acc acc (hex_fixed k n) = Inr (acc * 16 ^ k + int (n mod 16 ^ k))"
proof (induction k arbitrary: n)
  case 0
  show ?case by simp
next
  case (Suc k)
  have d: "hex_val (hex_digit (n mod 16)) = Some (n mod 16)"
    by (rule hex_val_hex_digit) simp
  have split: "n mod (16 * 16 ^ k) = 16 * ((n div 16) mod 16 ^ k) + n mod 16"
    by (simp add: mod_mult2_eq)
  show ?case
    by (simp add: int16_acc_append Suc d split algebra_simps)
qed

lemma hex_fixed_length: "length (hex_fixed k n) = k"
  by (induction k arbitrary: n) auto

lemma int_base16_hexdigest: "int_base16 (hexdigest d) = Inr (uint d)"
proof -
  have ne: "hex_fixed 64 (unat d) \<noteq> []"
    using hex_fixed_length [of 64 "unat d"] by auto
  have "unat d < 2 ^ 256"
    using unsigned_less [of d] by simp
  then have small: "unat d mod 16 ^ 64 = unat d"
    by simp
  have "int16_acc 0 (hex_fixed 64 (unat d)) = Inr (int (unat d mod 16 ^ 64))"
    by (simp only: int16_acc_hex_fixed mult_zero_left add_0_left)
  also have "\<dots> = Inr (uint d)"
    by (simp only: small) simp
  finally show ?thesis
    using ne by (simp only: int_base16_def hexdigest_def if_False)
qed

lemma text_hash_eq:
  "text_hash lib t =
     (case utf8_encode t of Inl e \<Rightarrow> Inl e | Inr bs \<Rightarrow> Inr (uint (sha256 lib bs) mod 10 ^ 8))"
  by (simp add: text_hash_def int_base16_hexdigest split: sum.splits)

lemma RandomState_seed:
  "RandomState lib (n mod 100000000) = Inr (mt_seed lib (nat (n mod 100000000)))"
proof -
  have "n mod 100000000 < (100000000 :: int)" by (rule pos_mod_bound) simp
  moreover have "0 \<le> n mod (100000000 :: int)" by (rule pos_mod_sign) simp
  ultimately show ?thesis by (simp add: RandomState_def)
qed

lemma rand_length: "rand lib n st = (xs, st') \<Longrightarrow> length xs = n"
  by (induction n arbitrary: st xs st') (auto split: prod.splits)

lemma length_rand: "length (fst (rand lib n st)) = n"
  using rand_length [of lib n st] by (cases "rand lib n st") simp

lemma encode_code_point_ok:
  "c < 0x110000 \<and> \<not> (0xD800 \<le> c \<and> c \<le> 0xDFFF) \<Longrightarrow> \<exists>bs. encode_code_point c = Inr bs"
  by (simp add: encode_code_point_def)

lemma utf8_encode_ok: "well_formed_text t \<Longrightarrow> \<exists>bs. utf8_encode t = Inr bs"
proof (induction t)
  case Nil
  show ?case by simp
next
  case (Cons c cs)
  then obtain bs where "encode_code_point c = Inr bs"
    using encode_code_point_ok [of c] by (auto simp: well_formed_text_def)
  moreover obtain rest where "utf8_encode cs = Inr rest"
    using Cons by (auto simp: well_formed_text_def)
  ultimately show ?case by simp
qed

lemma utf8_encode_fails: "\<not> well_formed_text t \<Longrightarrow> \<exists>e. utf8_encode t = Inl e"
  by (induction t) (auto simp: well_formed_text_def encode_code_point_def split: sum.splits)

lemma hash_to_vector_eq:
  "hash_to_vector lib self t =
     (case utf8_encode t of
        Inl e \<Rightarrow> Inl e
      | Inr bs \<Rightarrow>
          (let seed = uint (sha256 lib bs) mod 10 ^ 8;
               drawn = map (astype_float32 lib) (fst (rand lib (embedding_size self) (mt_seed lib (nat seed))));
               norm = linalg_norm lib drawn
           in Inr (if norm > 0 then map (\<lambda>x. true_divide lib x norm) drawn else drawn)))"
  by (simp add: hash_to_vector_def text_hash_eq RandomState_seed Let_def split: sum.splits)

lemma hash_to_vector_ok:
  assumes "well_formed_text t"
  shows "\<exists>v. hash_to_vector lib self t = Inr v \<and> length v = embedding_size self"
proof -
  obtain bs where "utf8_encode t = Inr bs"
    using utf8_encode_ok [OF assms] by blast
  then show ?thesis
    by (simp add: hash_to_vector_eq Let_def length_rand)
qed

lemma hash_each_ok:
  "list_all well_formed_text ts \<Longrightarrow>
   \<exists>vs. hash_each lib self ts = Inr vs \<and> length vs = length ts \<and>
        (\<forall>i<length ts. hash_to_vector lib self (ts ! i) = Inr (vs ! i))"
proof (induction ts)
  case Nil
  show ?case by simp
next
  case (Cons t ts)
  from Cons.prems have wf: "well_formed_text t" and rest: "list_all well_formed_text ts"
    by simp_all
  obtain v where v: "hash_to_vector lib self t = Inr v"
    using hash_to_vector_ok [OF wf] by blast
  obtain vs where vs: "hash_each lib self ts = Inr vs" "length vs = length ts"
      "\<forall>i<length ts. hash_to_vector lib self (ts ! i) = Inr (vs ! i)"
    using Cons.IH [OF rest] by blast
  have "\<forall>i<length (t # ts). hash_to_vector lib self ((t # ts) ! i) = Inr ((v # vs) ! i)"
    using v vs(3) by (auto simp: nth_Cons split: nat.splits)
  then show ?case
    using v vs(1,2) by simp
qed

section \<open>The hash embedder: claims\<close>

text \<open>
  C1. For every string \<open>t\<close>, \<^verbatim>\<open>encode(t)\<close> of a model built by \<^verbatim>\<open>__init__\<close> is: the
  SHA-256 digest of the UTF-8 encoding of \<open>t\<close>, read as an integer and reduced modulo
  \<open>10^8\<close>; a generator seeded with that number (the seed is always in the range the
  constructor accepts); 384 draws, converted to \<^verbatim>\<open>float32\<close>; the normalisation. A
  string without a UTF-8 encoding raises at the first step. The result depends on the
  text only, so two calls with the same text return the same vector, whatever the
  instance's name.
\<close>

theorem encode_is_seeded_hash:
  "encode lib (self\<lparr>embedding_size := 384\<rparr>) (Str t) =
     (case utf8_encode t of
        Inl e \<Rightarrow> Inl e
      | Inr bs \<Rightarrow>
          (let seed = uint (sha256 lib bs) mod 10 ^ 8;
               drawn = map (astype_float32 lib) (fst (rand lib 384 (mt_seed lib (nat seed))));
               norm = linalg_norm lib drawn
           in Inr (Vector (if norm > 0 then map (\<lambda>x. true_divide lib x norm) drawn else drawn))))
   \<and> encode lib (self\<lparr>embedding_size := 384\<rparr>) (Str t) =
       encode lib (other\<lparr>embedding_size := 384\<rparr>) (Str t)"
  by (simp add: encode_def hash_to_vector_eq Let_def split: sum.splits)

text \<open>
  C2, as stated, fails: a Python string may hold a lone surrogate, and \<^verbatim>\<open>encode\<close> of
  such a string raises \<^verbatim>\<open>UnicodeEncodeError\<close> instead of returning a vector.
\<close>

theorem encode_surrogate_raises:
  "encode demo_lib default_model (Str [0xD800]) =
     Inl (Exn UnicodeEncodeError ''surrogates not allowed'')"
  by (simp add: encode_def hash_to_vector_def text_hash_def encode_code_point_def)

text \<open>
  C2, amended. For a model built by \<^verbatim>\<open>__init__\<close> and texts that have a UTF-8 encoding:
  a single string yields a single vector of exactly 384 floats, and a sequence of \<open>n\<close>
  strings yields \<open>n\<close> vectors in the same order, the \<open>i\<close>-th being the encoding of the
  \<open>i\<close>-th string.
\<close>

theorem encode_shape:
  assumes "embedding_size self = 384"
    and "well_formed_text t"
    and "list_all well_formed_text ts"
  shows "(\<exists>v. encode lib self (Str t) = Inr (Vector v) \<and> length v = 384) \<and>
         (\<exists>vs. encode lib self (Seq ts) = Inr (Vectors vs) \<and> length vs = length ts \<and>
            (\<forall>i<length ts. encode lib self (Str (ts ! i)) = Inr (Vector (vs ! i)) \<and>
                           length (vs ! i) = 384))"
proof
  show "\<exists>v. encode lib self (Str t) = Inr (Vector v) \<and> length v = 384"
    using hash_to_vector_ok [OF assms(2), of lib self] assms(1) by (auto simp: encode_def)
next
  obtain vs where vs: "hash_each lib self ts = Inr vs" "length vs = length ts"
      "\<forall>i<length ts. hash_to_vector lib self (ts ! i) = Inr (vs ! i)"
    using hash_each_ok [OF assms(3)] by blast
  have "length (vs ! i) = 384" if "i < length ts" for i
  proof -
    have "well_formed_text (ts ! i)"
      using assms(3) that by (simp add: list_all_length)
    then obtain v where "hash_to_vector lib self (ts ! i) = Inr v" "length v = embedding_size self"
      using hash_to_vector_ok by blast
    then show ?thesis
      using vs(3) that assms(1) by auto
  qed
  then show "\<exists>vs. encode lib self (Seq ts) = Inr (Vectors vs) \<and> length vs = length ts \<and>
            (\<forall>i<length ts. encode lib self (Str (ts ! i)) = Inr (Vector (vs ! i)) \<and>
                           length (vs ! i) = 384)"
    using vs by (auto simp: encode_def)
qed

theorem encode_shape_witness:
  "(\<exists>v. encode demo_lib default_model (Str [104, 105]) = Inr (Vector v) \<and> length v = 384) \<and>
   (\<exists>vs. encode demo_lib default_model (Seq [[104], [], [233, 8364]]) = Inr (Vectors vs) \<and>
      length vs = 3 \<and>
      encode demo_lib default_model (Str [104]) = Inr (Vector (vs ! 0)) \<and>
      encode demo_lib default_model (Str []) = Inr (Vector (vs ! 1)) \<and>
      encode demo_lib default_model (Str [233, 8364]) = Inr (Vector (vs ! 2)) \<and>
      length (vs ! 2) = 384)"
proof -
  have a: "embedding_size default_model = 384"
    by (simp add: default_model_def)
  have b: "well_formed_text [104, 105]"
    by (simp add: well_formed_text_def)
  have c: "list_all well_formed_text [[104], [], [233, 8364]]"
    by (simp add: well_formed_text_def)
  note t = encode_shape [OF a b c, of demo_lib]
  obtain vs where vs: "encode demo_lib default_model (Seq [[104], [], [233, 8364]]) = Inr (Vectors vs)"
    "length vs = length [[104], [], [233, 8364 :: nat]]"
    "\<forall>i<length [[104], [], [233, 8364 :: nat]].
          encode demo_lib default_model (Str ([[104], [], [233, 8364]] ! i)) = Inr (Vector (vs ! i)) \<and>
          length (vs ! i) = 384"
    using t by blast
  have "encode demo_lib default_model (Str [104]) = Inr (Vector (vs ! 0))"
    "encode demo_lib default_model (Str []) = Inr (Vector (vs ! 1))"
    "encode demo_lib default_model (Str [233, 8364]) = Inr (Vector (vs ! 2))"
    "length (vs ! 2) = 384"
    using vs(3) [rule_format, of 0] vs(3) [rule_format, of 1] vs(3) [rule_format, of 2]
    by simp_all
  then show ?thesis
    using t vs(1,2) by auto
qed

text \<open>
  C6. In \<^verbatim>\<open>_hash_to_vector\<close> the drawn vector is divided by its norm exactly when the norm
  is strictly positive; otherwise (a zero norm) it is returned as drawn. For texts that
  have a UTF-8 encoding, \<^verbatim>\<open>_hash_to_vector\<close> and \<^verbatim>\<open>encode\<close> return and do not raise.
\<close>

theorem hash_to_vector_guarded_division:
  assumes "well_formed_text t"
    and "well_formed_texts txts"
  shows "\<exists>bs. utf8_encode t = Inr bs \<and>
           hash_to_vector lib self t =
             Inr (let drawn = map (astype_float32 lib)
                        (fst (rand lib (embedding_size self)
                           (mt_seed lib (nat (uint (sha256 lib bs) mod 10 ^ 8)))));
                      norm = linalg_norm lib drawn
                  in if 0 < norm then map (\<lambda>x. true_divide lib x norm) drawn else drawn) \<and>
           (\<exists>r. encode lib self txts = Inr r)"
proof -
  obtain bs where bs: "utf8_encode t = Inr bs"
    using utf8_encode_ok [OF assms(1)] by blast
  have "\<exists>r. encode lib self txts = Inr r"
  proof (cases txts)
    case (Str u)
    then have "well_formed_text u"
      using assms(2) by (simp add: well_formed_texts_def)
    then show ?thesis
      using hash_to_vector_ok [of u lib self] Str by (auto simp: encode_def)
  next
    case (Seq us)
    then have "list_all well_formed_text us"
      using assms(2) by (simp add: well_formed_texts_def)
    then show ?thesis
      using hash_each_ok [of us lib self] Seq by (auto simp: encode_def)
  qed
  then show ?thesis
    using bs by (simp add: hash_to_vector_eq Let_def)
qed

text \<open>
  The witness: a generator that draws zeros only (zero norm, the vector is returned as
  drawn) and one that draws halves (positive norm, the vector is divided).
\<close>

theorem hash_to_vector_guarded_division_witness:
  "hash_to_vector zero_lib tiny_model [104, 105] = Inr [0, 0] \<and>
   hash_to_vector demo_lib tiny_model [104, 105] =
     Inr [1 / 2 / sqrt (1 / 2), 1 / 2 / sqrt (1 / 2)] \<and>
   (\<exists>r. encode demo_lib default_model (Seq [[104], [105]]) = Inr r)"
proof -
  have a: "well_formed_text [104, 105]"
    by (simp add: well_formed_text_def)
  have b: "well_formed_texts (Seq [[104], [105]])"
    by (simp add: well_formed_texts_def well_formed_text_def)
  have enc: "utf8_encode [104, 105] = Inr [104, 105]"
    by (simp add: encode_code_point_def)
  have 1: "hash_to_vector zero_lib tiny_model [104, 105] = Inr [0, 0]"
    using hash_to_vector_guarded_division [OF a b, of zero_lib tiny_model]
    by (simp add: enc zero_lib_def demo_lib_def tiny_model_def numeral_2_eq_2)
  have 2: "hash_to_vector demo_lib tiny_model [104, 105] =
     Inr [1 / 2 / sqrt (1 / 2), 1 / 2 / sqrt (1 / 2)]"
    using hash_to_vector_guarded_division [OF a b, of demo_lib tiny_model]
    by (simp add: enc demo_lib_def tiny_model_def numeral_2_eq_2)
  have 3: "\<exists>r. encode demo_lib default_model (Seq [[104], [105]]) = Inr r"
    using hash_to_vector_guarded_division [OF a b, of demo_lib default_model] by blast
  show ?thesis
    using 1 2 3 by (intro conjI)
qed

section \<open>try\_external\_embeddings\<close>

lemma key_present: "k \<in> fst ` set kvs \<longleftrightarrow> map_of (rev kvs) k \<noteq> None"
  using map_of_eq_None_iff [of "rev kvs" k] by simp

text \<open>
  C7, as stated, fails: \<^verbatim>\<open>raise_for_status\<close> raises for the statuses 400 to 599 only, so
  a response with status 300 (not 2xx) whose JSON body has the key \<^verbatim>\<open>embeddings\<close> is
  returned, not turned into \<^verbatim>\<open>None\<close>.
\<close>

theorem try_external_embeddings_status_300:
  "fst (try_external_embeddings env_status_300 (Str [104, 105]) (Some ''http://embedder/embed'')
          fresh_world) = Inr (JArr [JArr [JNum 1]])"
  by (simp add: try_external_embeddings_def 
        external_embeddings_request_def call_requests_post_def raise_for_status_def
        response_json_def try_except_def bindE_def lift_def ret_def raise_def logm_def Let_def
        env_status_300_def env_healthy_def fresh_world_def)

text \<open>
  C7, amended. \<^verbatim>\<open>try_external_embeddings\<close> never raises. It returns \<^verbatim>\<open>None\<close> when the
  URL is absent or empty, when the request raises, when the status is in 400 to 599, when
  the body is not JSON, and when the JSON value is not an object with the key
  \<^verbatim>\<open>embeddings\<close>; otherwise it returns the value under that key.
\<close>

theorem try_external_embeddings_result:
  "fst (try_external_embeddings env text api_url w) =
     Inr (try_external_embeddings_spec env text api_url w)"
  by (auto simp: try_external_embeddings_def try_external_embeddings_spec_def
        external_embeddings_request_def call_requests_post_def raise_for_status_def
        response_json_def try_except_def bindE_def lift_def ret_def raise_def logm_def Let_def
        key_present
      split: option.splits sum.splits json.splits)

section \<open>The shim: what the module-level code may change\<close>

lemma imports_only_refl: "imports_only w w"
  by (simp add: imports_only_def)

lemma imports_only_trans: "imports_only w w1 \<Longrightarrow> imports_only w1 w2 \<Longrightarrow> imports_only w w2"
  by (auto simp: imports_only_def)

lemma py_import_imports_only:
  "py_import env name w = (r, w') \<Longrightarrow> name \<noteq> ''_lzma'' \<Longrightarrow> imports_only w w'"
  by (auto simp: py_import_def imports_only_def split: if_splits option.splits)

lemma fallback_embeddings_lzma_block_imports_only:
  "fallback_embeddings_lzma_block env w = (r, w') \<Longrightarrow> imports_only w w'"
  by (auto simp: fallback_embeddings_lzma_block_def try_except_ImportError_def try_except_def
        bindE_def set_module_def logm_def ret_def raise_def imports_only_def py_import_def
      split: sum.splits if_splits option.splits)

lemma import_fallback_embeddings_imports_only:
  assumes "import_fallback_embeddings env w = (r, w')"
  shows "imports_only w w'"
proof (cases "sys_modules w ''open_webui.retrieval.fallback_embeddings'' = None")
  case False
  then show ?thesis
    using assms by (auto simp: import_fallback_embeddings_def ret_def imports_only_refl)
next
  case True
  obtain r1 w1 where p1: "py_import env ''numpy'' w = (r1, w1)"
    by (cases "py_import env ''numpy'' w")
  obtain r2 w2 where p2: "py_import env ''requests'' w1 = (r2, w2)"
    by (cases "py_import env ''requests'' w1")
  obtain r3 w3 where p3: "fallback_embeddings_lzma_block env w2 = (r3, w3)"
    by (cases "fallback_embeddings_lzma_block env w2")
  have s1: "imports_only w w1"
    using py_import_imports_only [OF p1] by simp
  have s2: "imports_only w1 w2"
    using py_import_imports_only [OF p2] by simp
  have s3: "imports_only w2 w3"
    by (rule fallback_embeddings_lzma_block_imports_only [OF p3])
  have s4: "imports_only w3
     (w3\<lparr>sys_modules := (sys_modules w3)(''open_webui.retrieval.fallback_embeddings'' \<mapsto> m)\<rparr>)" for m
    by (simp add: imports_only_def)
  have "w' = w1 \<or> w' = w2 \<or> w' = w3 \<or>
        w' = w3\<lparr>sys_modules := (sys_modules w3)(''open_webui.retrieval.fallback_embeddings'' \<mapsto>
                 Module ''open_webui.retrieval.fallback_embeddings'')\<rparr>"
    using assms True p1 p2 p3
    by (auto simp: import_fallback_embeddings_def bindE_def set_module_def split: sum.splits)
  then show ?thesis
    using s1 s2 s3 s4 by (auto intro: imports_only_trans)
qed

lemma st_patch_lzma_block_imports_only:
  "st_patch_lzma_block env w = (r, w') \<Longrightarrow> imports_only w w'"
  by (auto simp: st_patch_lzma_block_def try_except_ImportError_def try_except_def
        bindE_def set_module_def logm_def ret_def raise_def imports_only_def py_import_def
        call_pip_install_def Let_def
      split: sum.splits if_splits option.splits)

lemma import_sentence_transformers_imports_only:
  "import_sentence_transformers env w = (r, w') \<Longrightarrow> imports_only w w'"
  by (auto simp: import_sentence_transformers_def try_except_ImportError_def try_except_def
        bindE_def logm_def ret_def raise_def lift_def imports_only_def py_import_def
      split: sum.splits if_splits option.splits)

lemma patch_sentence_transformers_first_call:
  assumes "patch_sentence_transformers env w = (r, w')"
  shows "imports_only w w' \<and>
         (\<exists>es. calls w' = calls w @
            FindSpec ''sentence_transformers'' (find_spec env (calls w) ''sentence_transformers'') # es)"
proof -
  define w0 where "w0 = w\<lparr>calls := calls w @
     [FindSpec ''sentence_transformers'' (find_spec env (calls w) ''sentence_transformers'')]\<rparr>"
  have s0: "imports_only w w0"
    by (simp add: imports_only_def w0_def)
  obtain r1 w1 where p1: "st_patch_lzma_block env w0 = (r1, w1)"
    by (cases "st_patch_lzma_block env w0")
  obtain r2 w2 where p2: "import_sentence_transformers env w1 = (r2, w2)"
    by (cases "import_sentence_transformers env w1")
  have s1: "imports_only w0 w1"
    by (rule st_patch_lzma_block_imports_only [OF p1])
  have s2: "imports_only w1 w2"
    by (rule import_sentence_transformers_imports_only [OF p2])
  have s3: "imports_only w0 (w0\<lparr>log_records := l\<rparr>)" for l
    by (simp add: imports_only_def)
  have "w' = w0 \<or> (\<exists>l. w' = w0\<lparr>log_records := l\<rparr>) \<or> w' = w1 \<or> w' = w2"
    using assms p1 p2
    by (auto simp: patch_sentence_transformers_def bindE_def call_find_spec_def Let_def
          w0_def logm_def ret_def
        split: sum.splits if_splits)
  then have "imports_only w0 w'"
    using s1 s2 s3 by (auto intro: imports_only_trans imports_only_refl)
  then show ?thesis
    using s0 by (auto simp: imports_only_def w0_def)
qed

lemma patch_if_local_imports_only:
  assumes "patch_if_local env w = (r, w')"
  shows "imports_only w w'"
proof (cases "RAG_EMBEDDING_ENGINE (config w) = []")
  case False
  then show ?thesis
    using assms by (auto simp: patch_if_local_def ret_def imports_only_refl)
next
  case True
  obtain r0 w0 where p0: "import_st_patch w = (r0, w0)"
    by (cases "import_st_patch w")
  obtain r1 w1 where p1: "patch_sentence_transformers env w0 = (r1, w1)"
    by (cases "patch_sentence_transformers env w0")
  have s0: "imports_only w w0"
    using p0 by (auto simp: import_st_patch_def ret_def set_module_def imports_only_def
        split: if_splits)
  have "w' = w1"
    using assms True p0 p1
    by (auto simp: patch_if_local_def bindE_def import_st_patch_def ret_def set_module_def
        split: sum.splits if_splits)
  then show ?thesis
    using s0 patch_sentence_transformers_first_call [OF p1] by (auto intro: imports_only_trans)
qed

lemma patch_if_local_first_call:
  assumes "patch_if_local env w = (r, w')" and "RAG_EMBEDDING_ENGINE (config w) = []"
  shows "\<exists>es. calls w' = calls w @
            FindSpec ''sentence_transformers'' (find_spec env (calls w) ''sentence_transformers'') # es"
proof -
  obtain r0 w0 where p0: "import_st_patch w = (r0, w0)"
    by (cases "import_st_patch w")
  obtain r1 w1 where p1: "patch_sentence_transformers env w0 = (r1, w1)"
    by (cases "patch_sentence_transformers env w0")
  have c0: "calls w0 = calls w"
    using p0 by (auto simp: import_st_patch_def ret_def set_module_def split: if_splits)
  have "w' = w1"
    using assms p0 p1
    by (auto simp: patch_if_local_def bindE_def import_st_patch_def ret_def set_module_def
        split: sum.splits if_splits)
  then show ?thesis
    using c0 patch_sentence_transformers_first_call [OF p1] by auto
qed

lemma patch_keeps_lzma:
  assumes "sys_modules w ''_lzma'' = Some m"
  shows "sys_modules (snd (patch_sentence_transformers env w)) ''_lzma'' = Some m"
proof -
  obtain r w' where p: "patch_sentence_transformers env w = (r, w')"
    by (cases "patch_sentence_transformers env w")
  show ?thesis
    using patch_sentence_transformers_first_call [OF p] assms p by (simp add: imports_only_def)
qed

lemma patches_keep_lzma:
  "sys_modules w ''_lzma'' = Some m \<Longrightarrow>
   sys_modules (foldl (\<lambda>v e. snd (patch_sentence_transformers e v)) w envs) ''_lzma'' = Some m"
  by (induction envs arbitrary: w) (simp_all add: patch_keeps_lzma)

lemma patch_no_lzma_event:
  assumes "sys_modules w ''_lzma'' = Some m"
  shows "\<exists>es. calls (snd (patch_sentence_transformers env w)) = calls w @ es \<and>
              list_all (\<lambda>e. \<not> is_lzma_event e) es"
  using assms
  by (auto simp: patch_sentence_transformers_def st_patch_lzma_block_def
        import_sentence_transformers_def comp_defs call_defs Let_def
      split: sum.splits option.splits)

lemma patch_registers_mock:
  "sys_modules (snd (patch_sentence_transformers env_no_backports fresh_world)) ''_lzma'' =
     Some MockLZMA_st_patch"
  by (simp add: module_defs comp_defs call_defs Let_def env_no_backports_def env_healthy_def
      fresh_world_def)

text \<open>
  C8. Once a call of \<^verbatim>\<open>patch_sentence_transformers\<close> has left an entry under
  \<^verbatim>\<open>_lzma\<close>, any number of later calls, in whatever environments, leave that entry as it
  is, and a later call neither imports nor installs \<^verbatim>\<open>backports.lzma\<close> again.
\<close>

theorem lzma_entry_kept_by_later_calls:
  assumes "sys_modules (snd (patch_sentence_transformers env w)) ''_lzma'' = Some m"
  shows "sys_modules
           (foldl (\<lambda>v e. snd (patch_sentence_transformers e v))
              (snd (patch_sentence_transformers env w)) envs) ''_lzma'' = Some m \<and>
         (\<exists>es. calls (snd (patch_sentence_transformers env2 (snd (patch_sentence_transformers env w))))
                 = calls (snd (patch_sentence_transformers env w)) @ es \<and>
               list_all (\<lambda>e. \<not> is_lzma_event e) es)"
  using patches_keep_lzma [OF assms] patch_no_lzma_event [OF assms] by blast

text \<open>
  The witness: the first call registers the stub, two more calls follow.
\<close>

theorem lzma_entry_kept_by_later_calls_witness:
  "sys_modules
     (foldl (\<lambda>v e. snd (patch_sentence_transformers e v))
        (snd (patch_sentence_transformers env_no_backports fresh_world))
        [env_healthy, env_no_backports]) ''_lzma'' = Some MockLZMA_st_patch \<and>
   (\<exists>es. calls (snd (patch_sentence_transformers env_healthy
                  (snd (patch_sentence_transformers env_no_backports fresh_world))))
           = calls (snd (patch_sentence_transformers env_no_backports fresh_world)) @ es \<and>
         list_all (\<lambda>e. \<not> is_lzma_event e) es)"
  by (rule lzma_entry_kept_by_later_calls [OF patch_registers_mock])

text \<open>
  C9. The stub that \<^verbatim>\<open>patch_sentence_transformers\<close> registers as its last resort is the
  \<^verbatim>\<open>MockLZMA\<close> of \<^verbatim>\<open>st_patch.py\<close>: an attribute access returns the no-op callable and
  leaves the log as it was, whereas the \<^verbatim>\<open>MockLZMA\<close> of \<^verbatim>\<open>fallback_embeddings.py\<close> logs a
  warning on the same access. Calling the callable returns \<^verbatim>\<open>None\<close> and changes nothing.
\<close>

theorem st_patch_stub_is_silent:
  "sys_modules (snd (patch_sentence_transformers env_no_backports fresh_world)) ''_lzma'' =
     Some MockLZMA_st_patch \<and>
   MockLZMA_getattr_st_patch ''LZMACompressor''
       (snd (patch_sentence_transformers env_no_backports fresh_world)) =
     (Inr NoopLambda, snd (patch_sentence_transformers env_no_backports fresh_world)) \<and>
   MockLZMA_getattr_fallback_embeddings ''LZMACompressor'' fresh_world =
     (Inr NoopLambda,
      fresh_world\<lparr>log_records := [(WARNING, ''Mock _lzma.LZMACompressor was called'')]\<rparr>) \<and>
   call_callable NoopLambda [JNum 6] fresh_world = (Inr JNull, fresh_world)"
proof -
  have "MockLZMA_getattr_fallback_embeddings ''LZMACompressor'' fresh_world =
     (Inr NoopLambda,
      fresh_world\<lparr>log_records := [(WARNING, ''Mock _lzma.LZMACompressor was called'')]\<rparr>)"
    by (simp add: MockLZMA_getattr_fallback_embeddings_def comp_defs fresh_world_def)
  then show ?thesis
    by (simp add: patch_registers_mock MockLZMA_getattr_st_patch_def ret_def call_callable_def)
qed

section \<open>ensure\_embedding\_function: the steps\<close>

lemma is_module_event_not_GetEf: "is_module_event e \<Longrightarrow> \<not> is_GetEf e"
  by (cases e) auto

lemma imports_only_quiet: "imports_only w w' \<Longrightarrow> quiet w w'"
  by (auto simp: imports_only_def quiet_def list_all_iff dest: is_module_event_not_GetEf)

lemma imports_only_frame:
  "imports_only w w' \<Longrightarrow>
   ef w' = ef w \<and> EMBEDDING_FUNCTION w' = EMBEDDING_FUNCTION w \<and> quiet w w'"
  using imports_only_quiet [of w w'] by (simp add: imports_only_def)



lemma quiet_at_most_one: "quiet w w' \<Longrightarrow> at_most_one_GetEf w w'"
  by (auto simp: quiet_def at_most_one_GetEf_def list_all_iff filter_empty_conv [THEN iffD2])

lemma quiet_then_one: "quiet w w1 \<Longrightarrow> at_most_one_GetEf w1 w2 \<Longrightarrow> at_most_one_GetEf w w2"
  by (auto simp: quiet_def at_most_one_GetEf_def list_all_iff filter_empty_conv [THEN iffD2])

lemma one_then_quiet: "at_most_one_GetEf w w1 \<Longrightarrow> quiet w1 w2 \<Longrightarrow> at_most_one_GetEf w w2"
  by (auto simp: quiet_def at_most_one_GetEf_def list_all_iff filter_empty_conv [THEN iffD2])

lemma get_fallback_embedding_model_eq:
  "get_fallback_embedding_model w =
     (Inr default_model,
      w\<lparr>log_records := log_records w @
          [(INFO, ''Initialized FallbackEmbeddingModel: fallback/text-hash-embedding'')]\<rparr>)"
  by (simp add: get_fallback_embedding_model_def FallbackEmbeddingModel_init_def comp_defs
      default_model_def)

lemma try_fallback_ef_step:
  assumes "try_fallback_ef env w = (r, w')"
  shows "r = Inr () \<and> quiet w w' \<and> EMBEDDING_FUNCTION w' = EMBEDDING_FUNCTION w \<and>
         (ef w' = ef w \<or> ef w' = Some (HashModel default_model)) \<and>
         (\<forall>wi. import_fallback_embeddings env w = (Inr (), wi) \<longrightarrow>
               ef w' = Some (HashModel default_model))"
proof -
  obtain ri wi where p: "import_fallback_embeddings env w = (ri, wi)"
    by (cases "import_fallback_embeddings env w")
  have q: "ef wi = ef w \<and> EMBEDDING_FUNCTION wi = EMBEDDING_FUNCTION w \<and> quiet w wi"
    by (rule imports_only_frame [OF import_fallback_embeddings_imports_only [OF p]])
  show ?thesis
    using assms p q
    by (auto simp: try_fallback_ef_def comp_defs get_fallback_embedding_model_eq quiet_def
        split: sum.splits)
qed

lemma initialize_EMBEDDING_FUNCTION_step:
  assumes "initialize_EMBEDDING_FUNCTION env w = (r, w')"
  shows "r = Inr () \<and> quiet w w' \<and> ef w' = ef w \<and>
         (ef w = None \<longrightarrow> w' = w) \<and>
         (ef w \<noteq> None \<longrightarrow> RAG_EMBEDDING_ENGINE (config w) \<noteq> [] \<longrightarrow>
            (\<exists>es. calls w' = calls w @ first_call env w # es))"
  using assms
  by (auto simp: initialize_EMBEDDING_FUNCTION_def comp_defs call_get_embedding_function_def
        quiet_def first_call_def Let_def
      split: option.splits sum.splits if_splits)

lemma final_fallback_step:
  assumes "final_fallback env w = (r, w')"
  shows "quiet w w' \<and> ef w' = ef w"
proof -
  define w0 where "w0 = w\<lparr>log_records := log_records w @
      [(WARNING, ''Creating final fallback embedding function'')]\<rparr>"
  obtain ri wi where p: "import_fallback_embeddings env w0 = (ri, wi)"
    by (cases "import_fallback_embeddings env w0")
  have q: "ef wi = ef w0 \<and> EMBEDDING_FUNCTION wi = EMBEDDING_FUNCTION w0 \<and> quiet w0 wi"
    by (rule imports_only_frame [OF import_fallback_embeddings_imports_only [OF p]])
  show ?thesis
    using assms p q
    by (auto simp: final_fallback_def comp_defs get_fallback_embedding_model_eq quiet_def
          w0_def
        split: sum.splits if_splits)
qed

lemma except_handler_step:
  assumes "except_handler env e w = (r, w')"
  shows "quiet w w' \<and> ef w' = ef w \<and>
         (r = Inr True \<or>
          r = Inl (HTTPException 500 (''Failed to initialize embedding function: '' @ str_exn e)))"
proof -
  define w0 where "w0 = w\<lparr>log_records := log_records w @
      [(ERROR, ''Error initializing embedding function: '' @ str_exn e)]\<rparr>"
  obtain ri wi where p: "import_fallback_embeddings env w0 = (ri, wi)"
    by (cases "import_fallback_embeddings env w0")
  have q: "ef wi = ef w0 \<and> EMBEDDING_FUNCTION wi = EMBEDDING_FUNCTION w0 \<and> quiet w0 wi"
    by (rule imports_only_frame [OF import_fallback_embeddings_imports_only [OF p]])
  show ?thesis
    using assms p q
    by (auto simp: except_handler_def comp_defs get_fallback_embedding_model_eq quiet_def
          w0_def
        split: sum.splits if_splits)
qed

lemma import_fallback_embeddings_ok:
  assumes "fallback_importable env"
  shows "\<exists>w'. import_fallback_embeddings env w = (Inr (), w')"
proof -
  have n: "import_module env h ''numpy'' = None" for h
    using assms by (simp add: fallback_importable_def)
  have r: "import_module env h ''requests'' = None" for h
    using assms by (simp add: fallback_importable_def)
  have b: "import_module env h ''backports.lzma'' = Some e \<Longrightarrow> is_ImportError e" for h e
    using assms by (simp add: fallback_importable_def)
  show ?thesis
    by (auto simp: import_fallback_embeddings_def fallback_embeddings_lzma_block_def comp_defs
          py_import_def n r
        split: option.splits dest: b)
qed


lemma initialize_ef_set:
  assumes "initialize_ef env w = (r, w')" and "ef w \<noteq> None"
  shows "w' = w \<and> r = Inr ()"
  using assms by (auto simp: initialize_ef_def ret_def)

lemma initialize_ef_unset:
  assumes "initialize_ef env w = (r, w')" and "ef w = None"
  shows "config w' = config w \<and> EMBEDDING_FUNCTION w' = EMBEDDING_FUNCTION w \<and>
         (\<exists>es. calls w' = calls w @
             GetEf (RAG_EMBEDDING_ENGINE (config w)) (RAG_EMBEDDING_MODEL (config w))
               (RAG_EMBEDDING_MODEL_AUTO_UPDATE env)
               (get_ef env (calls w) (RAG_EMBEDDING_ENGINE (config w))
                  (RAG_EMBEDDING_MODEL (config w)) (RAG_EMBEDDING_MODEL_AUTO_UPDATE env)) # es \<and>
             list_all (\<lambda>e. \<not> is_GetEf e) es) \<and>
         (case get_ef env (calls w) (RAG_EMBEDDING_ENGINE (config w))
                  (RAG_EMBEDDING_MODEL (config w)) (RAG_EMBEDDING_MODEL_AUTO_UPDATE env) of
            Inl e \<Rightarrow> r = Inl e \<and> ef w' = None
          | Inr None \<Rightarrow> r = Inr () \<and> (ef w' = None \<or> ef w' = Some (HashModel default_model)) \<and>
                (fallback_importable env \<longrightarrow> ef w' = Some (HashModel default_model))
          | Inr (Some m) \<Rightarrow> r = Inr () \<and> ef w' = Some m)"
proof -
  let ?g = "get_ef env (calls w) (RAG_EMBEDDING_ENGINE (config w))
                  (RAG_EMBEDDING_MODEL (config w)) (RAG_EMBEDDING_MODEL_AUTO_UPDATE env)"
  define w1 where "w1 = w\<lparr>log_records := log_records w @
       [(INFO, ''Initializing ef with engine: '' @ RAG_EMBEDDING_ENGINE (config w) @
               '', model: '' @ RAG_EMBEDDING_MODEL (config w))],
     calls := calls w @ [GetEf (RAG_EMBEDDING_ENGINE (config w)) (RAG_EMBEDDING_MODEL (config w))
               (RAG_EMBEDDING_MODEL_AUTO_UPDATE env) ?g]\<rparr>"
  define w2 where "w2 = w1\<lparr>ef := None, log_records := log_records w1 @
       [(WARNING, ''Primary embedding function initialization failed. Trying fallback.'')]\<rparr>"
  obtain rf wf where f: "try_fallback_ef env w2 = (rf, wf)"
    by (cases "try_fallback_ef env w2")
  note fs = try_fallback_ef_step [OF f]
  have imp: "fallback_importable env \<Longrightarrow> ef wf = Some (HashModel default_model)"
    using fs import_fallback_embeddings_ok [of env w2] by auto
  have run: "(r, w') =
     (case ?g of
        Inl e \<Rightarrow> (Inl e, w1)
      | Inr None \<Rightarrow> (rf, wf)
      | Inr (Some m) \<Rightarrow> (Inr (), w1\<lparr>ef := Some m\<rparr>))"
    using assms f
    by (auto simp: initialize_ef_def comp_defs call_get_ef_def Let_def w1_def w2_def
        split: sum.splits option.splits)
  have base: "config w1 = config w" "EMBEDDING_FUNCTION w1 = EMBEDDING_FUNCTION w" "ef w1 = None"
    "calls w1 = calls w @ [GetEf (RAG_EMBEDDING_ENGINE (config w)) (RAG_EMBEDDING_MODEL (config w))
               (RAG_EMBEDDING_MODEL_AUTO_UPDATE env) ?g]"
    using assms(2) by (simp_all add: w1_def)
  have base2: "config w2 = config w" "EMBEDDING_FUNCTION w2 = EMBEDDING_FUNCTION w" "ef w2 = None"
    "calls w2 = calls w1"
    using base by (simp_all add: w2_def)
  show ?thesis
  proof (cases ?g)
    case (Inl e)
    then show ?thesis using run base by simp
  next
    case (Inr mo)
    show ?thesis
    proof (cases mo)
      case None
      then have "r = rf" "w' = wf" using run Inr by simp_all
      then show ?thesis
        using fs imp base base2 Inr None by (auto simp: quiet_def)
    next
      case (Some m)
      then show ?thesis using run base Inr by simp
    qed
  qed
qed

lemma try_body_cases:
  assumes "try_body env w = (r, w')"
  obtains rp wp ri wi we rf wf where
    "patch_if_local env w = (rp, wp)"
    "initialize_ef env wp = (ri, wi)"
    "initialize_EMBEDDING_FUNCTION env wi = (Inr (), we)"
    "final_fallback env we = (rf, wf)"
    "(r, w') =
       (case rp of
          Inl e \<Rightarrow> (Inl e, wp)
        | Inr _ \<Rightarrow>
            (case ri of
               Inl e \<Rightarrow> (Inl e, wi)
             | Inr _ \<Rightarrow>
                 (case rf of
                    Inl e \<Rightarrow> (Inl e, wf)
                  | Inr _ \<Rightarrow>
                      (Inr True,
                       wf\<lparr>log_records := log_records wf @
                          [(INFO, ''Successfully initialized embedding function'')]\<rparr>))))"
proof -
  obtain rp wp where p: "patch_if_local env w = (rp, wp)"
    by (cases "patch_if_local env w")
  obtain ri wi where i: "initialize_ef env wp = (ri, wi)"
    by (cases "initialize_ef env wp")
  obtain re we where e: "initialize_EMBEDDING_FUNCTION env wi = (re, we)"
    by (cases "initialize_EMBEDDING_FUNCTION env wi")
  obtain rf wf where f: "final_fallback env we = (rf, wf)"
    by (cases "final_fallback env we")
  have re: "re = Inr ()"
    using initialize_EMBEDDING_FUNCTION_step [OF e] by simp
  have "(r, w') =
       (case rp of
          Inl e \<Rightarrow> (Inl e, wp)
        | Inr _ \<Rightarrow>
            (case ri of
               Inl e \<Rightarrow> (Inl e, wi)
             | Inr _ \<Rightarrow>
                 (case rf of
                    Inl e \<Rightarrow> (Inl e, wf)
                  | Inr _ \<Rightarrow>
                      (Inr True,
                       wf\<lparr>log_records := log_records wf @
                          [(INFO, ''Successfully initialized embedding function'')]\<rparr>))))"
    using assms p i e f re
    by (auto simp: try_body_def bindE_def logm_def ret_def split: sum.splits)
  then show ?thesis
    using that p i e f re by blast
qed

lemma ensure_cases:
  assumes "ensure_embedding_function env w = (r, w')" and "needs_initialization w"
  obtains rb wb where
    "try_body env (w\<lparr>log_records := log_records w @
        [(WARNING, ''Embedding function not initialized. Attempting to initialize.'')]\<rparr>) = (rb, wb)"
    "(r, w') = (case rb of Inl e \<Rightarrow> except_handler env e wb | Inr b \<Rightarrow> (Inr b, wb))"
proof -
  obtain rb wb where b: "try_body env (w\<lparr>log_records := log_records w @
        [(WARNING, ''Embedding function not initialized. Attempting to initialize.'')]\<rparr>) = (rb, wb)"
    by (cases "try_body env (w\<lparr>log_records := log_records w @
        [(WARNING, ''Embedding function not initialized. Attempting to initialize.'')]\<rparr>)")
  have "(r, w') = (case rb of Inl e \<Rightarrow> except_handler env e wb | Inr b \<Rightarrow> (Inr b, wb))"
    using assms b
    by (auto simp: ensure_embedding_function_def needs_initialization_def bindE_def logm_def
          try_except_def
        split: sum.splits)
  then show ?thesis
    using that b by blast
qed

lemma at_most_one_prefix:
  "at_most_one_GetEf w w' \<Longrightarrow> \<exists>es. calls w' = calls w @ es"
  by (auto simp: at_most_one_GetEf_def)

lemma initialize_ef_at_most_one:
  assumes "initialize_ef env w = (r, w')"
  shows "at_most_one_GetEf w w'"
proof (cases "ef w")
  case None
  show ?thesis
    using initialize_ef_unset [OF assms None]
    by (auto simp: at_most_one_GetEf_def list_all_iff filter_empty_conv [THEN iffD2])
next
  case (Some m)
  then show ?thesis
    using initialize_ef_set [OF assms] by (simp add: at_most_one_GetEf_def)
qed

lemma try_body_trace:
  assumes "try_body env w = (r, w')"
  shows "at_most_one_GetEf w w' \<and> (\<forall>b. r = Inr b \<longrightarrow> b) \<and>
         (needs_initialization w \<longrightarrow> (\<exists>es. calls w' = calls w @ first_call env w # es))"
proof -
  from assms obtain rp wp ri wi we rf wf where
    p: "patch_if_local env w = (rp, wp)" and
    i: "initialize_ef env wp = (ri, wi)" and
    e: "initialize_EMBEDDING_FUNCTION env wi = (Inr (), we)" and
    f: "final_fallback env we = (rf, wf)" and
    run: "(r, w') =
       (case rp of
          Inl e \<Rightarrow> (Inl e, wp)
        | Inr _ \<Rightarrow>
            (case ri of
               Inl e \<Rightarrow> (Inl e, wi)
             | Inr _ \<Rightarrow>
                 (case rf of
                    Inl e \<Rightarrow> (Inl e, wf)
                  | Inr _ \<Rightarrow>
                      (Inr True,
                       wf\<lparr>log_records := log_records wf @
                          [(INFO, ''Successfully initialized embedding function'')]\<rparr>))))"
    by (rule try_body_cases)
  have pf: "ef wp = ef w \<and> EMBEDDING_FUNCTION wp = EMBEDDING_FUNCTION w \<and> quiet w wp"
    by (rule imports_only_frame [OF patch_if_local_imports_only [OF p]])
  have q1: "at_most_one_GetEf w wp"
    using pf by (simp add: quiet_at_most_one)
  have q2: "at_most_one_GetEf w wi"
    using pf initialize_ef_at_most_one [OF i] by (blast intro: quiet_then_one)
  note es = initialize_EMBEDDING_FUNCTION_step [OF e]
  note fs = final_fallback_step [OF f]
  have q3: "at_most_one_GetEf w we"
    using q2 es by (blast intro: one_then_quiet)
  have q4: "at_most_one_GetEf w wf"
    using q3 fs by (blast intro: one_then_quiet)
  have q5: "at_most_one_GetEf w (wf\<lparr>log_records := l\<rparr>)" for l
    using q4 by (simp add: at_most_one_GetEf_def)
  have w': "w' = wp \<or> w' = wi \<or> w' = wf \<or> (\<exists>l. w' = wf\<lparr>log_records := l\<rparr>)"
    using run by (auto split: sum.splits)
  have one: "at_most_one_GetEf w w'"
    using w' q1 q2 q4 q5 by auto
  have res: "\<forall>b. r = Inr b \<longrightarrow> b"
    using run by (auto split: sum.splits)
  have first: "\<exists>es. calls w' = calls w @ first_call env w # es" if need: "needs_initialization w"
  proof -
    have chain: "\<exists>es. calls w' = calls v @ es"
      if "v = wp \<or> (v = wi \<and> rp = Inr ()) \<or> (v = we \<and> rp = Inr () \<and> ri = Inr ())" for v
    proof -
      have a: "\<exists>es. calls wi = calls wp @ es"
        using initialize_ef_at_most_one [OF i] by (rule at_most_one_prefix)
      have b: "\<exists>es. calls we = calls wi @ es"
        using es by (auto simp: quiet_def)
      have c: "\<exists>es. calls wf = calls we @ es"
        using fs by (auto simp: quiet_def)
      show ?thesis
        using that run a b c by (auto split: sum.splits)
    qed
    show ?thesis
    proof (cases "RAG_EMBEDDING_ENGINE (config w) = []")
      case True
      obtain es0 where "calls wp = calls w @ first_call env w # es0"
        using patch_if_local_first_call [OF p True] True by (auto simp: first_call_def)
      moreover obtain es1 where "calls w' = calls wp @ es1"
        using chain [of wp] by auto
      ultimately show ?thesis by simp
    next
      case False
      then have wp: "wp = w" "rp = Inr ()"
        using p by (auto simp: patch_if_local_def ret_def)
      show ?thesis
      proof (cases "ef w")
        case None
        obtain es0 where "calls wi = calls w @ first_call env w # es0"
          using initialize_ef_unset [OF i] None wp False by (auto simp: first_call_def)
        moreover have "\<exists>es. calls w' = calls wi @ es"
        proof (cases ri)
          case (Inl x)
          then show ?thesis using run wp by simp
        next
          case (Inr u)
          obtain es1 where "calls we = calls wi @ es1" using es by (auto simp: quiet_def)
          moreover obtain es2 where "calls w' = calls we @ es2"
            using chain [of we] wp Inr by auto
          ultimately show ?thesis by simp
        qed
        ultimately show ?thesis by auto
      next
        case (Some m)
        then have wi: "wi = w" "ri = Inr ()"
          using initialize_ef_set [OF i] wp by simp_all
        obtain es0 where "calls we = calls w @ first_call env w # es0"
          using es wi Some False by auto
        moreover obtain es1 where "calls w' = calls we @ es1"
          using chain [of we] wp wi by auto
        ultimately show ?thesis by simp
      qed
    qed
  qed
  show ?thesis
    using one res first by blast
qed

lemma ensure_trace:
  assumes "ensure_embedding_function env w = (r, w')"
  shows "at_most_one_GetEf w w' \<and>
         (r = Inr True \<or> (\<exists>d. r = Inl (HTTPException 500 d))) \<and>
         (needs_initialization w \<longrightarrow> (\<exists>es. calls w' = calls w @ first_call env w # es)) \<and>
         (\<not> needs_initialization w \<longrightarrow> w' = w)"
proof (cases "needs_initialization w")
  case False
  then show ?thesis
    using assms
    by (auto simp: ensure_embedding_function_def needs_initialization_def ret_def
        at_most_one_GetEf_def)
next
  case True
  let ?w0 = "w\<lparr>log_records := log_records w @
        [(WARNING, ''Embedding function not initialized. Attempting to initialize.'')]\<rparr>"
  from assms True obtain rb wb where
    b: "try_body env ?w0 = (rb, wb)" and
    run: "(r, w') = (case rb of Inl e \<Rightarrow> except_handler env e wb | Inr b \<Rightarrow> (Inr b, wb))"
    by (rule ensure_cases)
  have need0: "needs_initialization ?w0"
    using True by (simp add: needs_initialization_def)
  have fc: "first_call env ?w0 = first_call env w"
    by (simp add: first_call_def cong: option.case_cong)
  note t = try_body_trace [OF b]
  have one0: "at_most_one_GetEf w wb"
    using t by (simp add: at_most_one_GetEf_def)
  obtain es0 where es0: "calls wb = calls w @ first_call env w # es0"
    using t need0 fc by auto
  show ?thesis
  proof (cases rb)
    case (Inr bb)
    then show ?thesis
      using run t one0 es0 True by auto
  next
    case (Inl e)
    then have h: "except_handler env e wb = (r, w')"
      using run by simp
    note hs = except_handler_step [OF h]
    have "at_most_one_GetEf w w'"
      using one0 hs by (blast intro: one_then_quiet)
    moreover obtain es1 where "calls w' = calls wb @ es1"
      using hs by (auto simp: quiet_def)
    ultimately show ?thesis
      using hs es0 True by auto
  qed
qed

lemma initialize_ef_model:
  assumes "ef w = None"
    and "get_ef env (calls w) (RAG_EMBEDDING_ENGINE (config w)) (RAG_EMBEDDING_MODEL (config w))
           (RAG_EMBEDDING_MODEL_AUTO_UPDATE env) = Inr (Some m)"
  shows "\<exists>w'. initialize_ef env w = (Inr (), w') \<and> ef w' = Some m \<and>
           EMBEDDING_FUNCTION w' = EMBEDDING_FUNCTION w \<and> config w' = config w \<and>
           calls w' = calls w @
                [GetEf (RAG_EMBEDDING_ENGINE (config w)) (RAG_EMBEDDING_MODEL (config w))
                   (RAG_EMBEDDING_MODEL_AUTO_UPDATE env) (Inr (Some m))]"
  using assms by (simp add: initialize_ef_def comp_defs call_get_ef_def Let_def)

lemma initialize_EMBEDDING_FUNCTION_wrapped:
  assumes "ef w = Some m"
    and "get_embedding_function env (calls w)
           (RAG_EMBEDDING_ENGINE (config w)) (RAG_EMBEDDING_MODEL (config w)) m
           (if RAG_EMBEDDING_ENGINE (config w) = ''openai''
            then RAG_OPENAI_API_BASE_URL (config w) else RAG_OLLAMA_BASE_URL (config w))
           (if RAG_EMBEDDING_ENGINE (config w) = ''openai''
            then RAG_OPENAI_API_KEY (config w) else RAG_OLLAMA_API_KEY (config w))
           (RAG_EMBEDDING_BATCH_SIZE (config w)) = Inr g"
  shows "\<exists>w'. initialize_EMBEDDING_FUNCTION env w = (Inr (), w') \<and>
              EMBEDDING_FUNCTION w' = g \<and> ef w' = Some m"
  using assms
  by (simp add: initialize_EMBEDDING_FUNCTION_def comp_defs call_get_embedding_function_def
      Let_def)

lemma ensure_overwrites:
  assumes f: "EMBEDDING_FUNCTION w = Some f" and n: "ef w = None"
    and eng: "RAG_EMBEDDING_ENGINE (config w) \<noteq> []"
    and g1: "get_ef env (calls w) (RAG_EMBEDDING_ENGINE (config w)) (RAG_EMBEDDING_MODEL (config w))
           (RAG_EMBEDDING_MODEL_AUTO_UPDATE env) = Inr (Some m)"
    and g2: "get_embedding_function env
           (calls w @ [GetEf (RAG_EMBEDDING_ENGINE (config w)) (RAG_EMBEDDING_MODEL (config w))
               (RAG_EMBEDDING_MODEL_AUTO_UPDATE env) (Inr (Some m))])
           (RAG_EMBEDDING_ENGINE (config w)) (RAG_EMBEDDING_MODEL (config w)) m
           (if RAG_EMBEDDING_ENGINE (config w) = ''openai''
            then RAG_OPENAI_API_BASE_URL (config w) else RAG_OLLAMA_BASE_URL (config w))
           (if RAG_EMBEDDING_ENGINE (config w) = ''openai''
            then RAG_OPENAI_API_KEY (config w) else RAG_OLLAMA_API_KEY (config w))
           (RAG_EMBEDDING_BATCH_SIZE (config w)) = Inr (Some g)"
  shows "fst (ensure_embedding_function env w) = Inr True \<and>
         ef (snd (ensure_embedding_function env w)) = Some m \<and>
         EMBEDDING_FUNCTION (snd (ensure_embedding_function env w)) = Some g"
proof -
  let ?w0 = "w\<lparr>log_records := log_records w @
        [(WARNING, ''Embedding function not initialized. Attempting to initialize.'')]\<rparr>"
  obtain r w' where e: "ensure_embedding_function env w = (r, w')"
    by (cases "ensure_embedding_function env w")
  have need: "needs_initialization w"
    using n by (simp add: needs_initialization_def)
  from e need obtain rb wb where
    b: "try_body env ?w0 = (rb, wb)" and
    run: "(r, w') = (case rb of Inl e \<Rightarrow> except_handler env e wb | Inr b \<Rightarrow> (Inr b, wb))"
    by (rule ensure_cases)
  from b obtain rp wp ri wi we rf wf where
    p: "patch_if_local env ?w0 = (rp, wp)" and
    i: "initialize_ef env wp = (ri, wi)" and
    ef: "initialize_EMBEDDING_FUNCTION env wi = (Inr (), we)" and
    ff: "final_fallback env we = (rf, wf)" and
    run2: "(rb, wb) =
       (case rp of
          Inl e \<Rightarrow> (Inl e, wp)
        | Inr _ \<Rightarrow>
            (case ri of
               Inl e \<Rightarrow> (Inl e, wi)
             | Inr _ \<Rightarrow>
                 (case rf of
                    Inl e \<Rightarrow> (Inl e, wf)
                  | Inr _ \<Rightarrow>
                      (Inr True,
                       wf\<lparr>log_records := log_records wf @
                          [(INFO, ''Successfully initialized embedding function'')]\<rparr>))))"
    by (rule try_body_cases)
  have wp: "wp = ?w0" "rp = Inr ()"
    using p eng by (auto simp: patch_if_local_def ret_def)
  have w0: "ef ?w0 = None" "calls ?w0 = calls w" "config ?w0 = config w"
    "EMBEDDING_FUNCTION ?w0 = Some f"
    using n f by simp_all
  have wi: "ri = Inr ()" "ef wi = Some m" "EMBEDDING_FUNCTION wi = Some f"
    "config wi = config w"
    "calls wi = calls w @
                [GetEf (RAG_EMBEDDING_ENGINE (config w)) (RAG_EMBEDDING_MODEL (config w))
                   (RAG_EMBEDDING_MODEL_AUTO_UPDATE env) (Inr (Some m))]"
    using initialize_ef_model [of ?w0 env m] i g1 wp w0 by auto
  have g2': "get_embedding_function env (calls wi)
           (RAG_EMBEDDING_ENGINE (config wi)) (RAG_EMBEDDING_MODEL (config wi)) m
           (if RAG_EMBEDDING_ENGINE (config wi) = ''openai''
            then RAG_OPENAI_API_BASE_URL (config wi) else RAG_OLLAMA_BASE_URL (config wi))
           (if RAG_EMBEDDING_ENGINE (config wi) = ''openai''
            then RAG_OPENAI_API_KEY (config wi) else RAG_OLLAMA_API_KEY (config wi))
           (RAG_EMBEDDING_BATCH_SIZE (config wi)) = Inr (Some g)"
    using g2 by (simp only: wi(4,5))
  have we: "EMBEDDING_FUNCTION we = Some g \<and> ef we = Some m"
    using initialize_EMBEDDING_FUNCTION_wrapped [OF wi(2) g2'] ef by auto
  have wf: "wf = we" "rf = Inr ()"
    using ff we by (auto simp: final_fallback_def ret_def)
  have "rb = Inr True" "ef wb = Some m" "EMBEDDING_FUNCTION wb = Some g"
    using run2 wp wi(1) wf we by simp_all
  then show ?thesis
    using run e by simp
qed

section \<open>ensure\_embedding\_function: outcomes\<close>





















section \<open>ensure\_embedding\_function: claims\<close>

text \<open>
  C4, as stated, fails: after a first run in which \<^verbatim>\<open>get_ef\<close> raised, the function has
  returned \<^verbatim>\<open>True\<close> and the function slot is populated, yet the next invocation calls
  \<^verbatim>\<open>get_ef\<close> again.
\<close>

theorem ensure_reruns_after_recovery:
  "fst (ensure_embedding_function env_get_ef_raises fresh_world) = Inr True \<and>
   EMBEDDING_FUNCTION (snd (ensure_embedding_function env_get_ef_raises fresh_world)) =
     Some (DirectFallback default_model) \<and>
   length (filter is_GetEf
     (calls (snd (ensure_embedding_function env_get_ef_raises fresh_world)))) = 1 \<and>
   length (filter is_GetEf
     (calls (snd (ensure_embedding_function env_get_ef_raises
        (snd (ensure_embedding_function env_get_ef_raises fresh_world)))))) = 2"
  by (simp add: initialize_defs module_defs comp_defs call_defs Let_def env_get_ef_raises_def
      env_healthy_def fresh_world_def demo_config_def default_model_def)

text \<open>
  C4, amended. Once both the model slot and the function slot are populated, every
  invocation returns \<^verbatim>\<open>True\<close> at once: no call is made, nothing is logged, and the state
  is unchanged.
\<close>

theorem ensure_noop_when_both_set:
  "ef w \<noteq> None \<Longrightarrow> EMBEDDING_FUNCTION w \<noteq> None \<Longrightarrow>
   ensure_embedding_function env w = (Inr True, w)"
  by (auto simp: ensure_embedding_function_def ret_def)

theorem ensure_noop_when_both_set_witness:
  "ensure_embedding_function env_healthy ready_world = (Inr True, ready_world)"
  by (rule ensure_noop_when_both_set) (simp_all add: ready_world_def fresh_world_def)

text \<open>
  C10. The initialisation is skipped when both slots are populated. When either is
  empty it runs again, starting with the call \<open>first_call\<close>. When the function slot is
  populated and the model slot is empty (an API engine here), a run in which \<^verbatim>\<open>get_ef\<close>
  returns a model and \<^verbatim>\<open>get_embedding_function\<close> returns a function replaces the function
  that was there.
\<close>

theorem ensure_skips_only_when_both_set:
  "(ef w \<noteq> None \<and> EMBEDDING_FUNCTION w \<noteq> None \<longrightarrow>
      ensure_embedding_function env w = (Inr True, w)) \<and>
   (ef w = None \<or> EMBEDDING_FUNCTION w = None \<longrightarrow>
      (\<exists>es. calls (snd (ensure_embedding_function env w)) = calls w @ first_call env w # es)) \<and>
   (EMBEDDING_FUNCTION w = Some f \<and> ef w = None \<and>
    RAG_EMBEDDING_ENGINE (config w) \<noteq> [] \<and>
    get_ef env (calls w) (RAG_EMBEDDING_ENGINE (config w)) (RAG_EMBEDDING_MODEL (config w))
       (RAG_EMBEDDING_MODEL_AUTO_UPDATE env) = Inr (Some m) \<and>
    get_embedding_function env
       (calls w @ [GetEf (RAG_EMBEDDING_ENGINE (config w)) (RAG_EMBEDDING_MODEL (config w))
           (RAG_EMBEDDING_MODEL_AUTO_UPDATE env) (Inr (Some m))])
       (RAG_EMBEDDING_ENGINE (config w)) (RAG_EMBEDDING_MODEL (config w)) m
       (if RAG_EMBEDDING_ENGINE (config w) = ''openai''
        then RAG_OPENAI_API_BASE_URL (config w) else RAG_OLLAMA_BASE_URL (config w))
       (if RAG_EMBEDDING_ENGINE (config w) = ''openai''
        then RAG_OPENAI_API_KEY (config w) else RAG_OLLAMA_API_KEY (config w))
       (RAG_EMBEDDING_BATCH_SIZE (config w)) = Inr (Some g) \<longrightarrow>
      fst (ensure_embedding_function env w) = Inr True \<and>
      ef (snd (ensure_embedding_function env w)) = Some m \<and>
      EMBEDDING_FUNCTION (snd (ensure_embedding_function env w)) = Some g)"
proof (intro conjI impI)
  assume "ef w \<noteq> None \<and> EMBEDDING_FUNCTION w \<noteq> None"
  then show "ensure_embedding_function env w = (Inr True, w)"
    by (auto simp: ensure_embedding_function_def ret_def)
next
  assume a: "ef w = None \<or> EMBEDDING_FUNCTION w = None"
  obtain r w' where e: "ensure_embedding_function env w = (r, w')"
    by (cases "ensure_embedding_function env w")
  show "\<exists>es. calls (snd (ensure_embedding_function env w)) = calls w @ first_call env w # es"
    using ensure_trace [OF e] a e by (auto simp: needs_initialization_def)
next
  assume a: "EMBEDDING_FUNCTION w = Some f \<and> ef w = None \<and>
    RAG_EMBEDDING_ENGINE (config w) \<noteq> [] \<and>
    get_ef env (calls w) (RAG_EMBEDDING_ENGINE (config w)) (RAG_EMBEDDING_MODEL (config w))
       (RAG_EMBEDDING_MODEL_AUTO_UPDATE env) = Inr (Some m) \<and>
    get_embedding_function env
       (calls w @ [GetEf (RAG_EMBEDDING_ENGINE (config w)) (RAG_EMBEDDING_MODEL (config w))
           (RAG_EMBEDDING_MODEL_AUTO_UPDATE env) (Inr (Some m))])
       (RAG_EMBEDDING_ENGINE (config w)) (RAG_EMBEDDING_MODEL (config w)) m
       (if RAG_EMBEDDING_ENGINE (config w) = ''openai''
        then RAG_OPENAI_API_BASE_URL (config w) else RAG_OLLAMA_BASE_URL (config w))
       (if RAG_EMBEDDING_ENGINE (config w) = ''openai''
        then RAG_OPENAI_API_KEY (config w) else RAG_OLLAMA_API_KEY (config w))
       (RAG_EMBEDDING_BATCH_SIZE (config w)) = Inr (Some g)"
  note o = ensure_overwrites [OF a [THEN conjunct1] a [THEN conjunct2, THEN conjunct1]
      a [THEN conjunct2, THEN conjunct2, THEN conjunct1]
      a [THEN conjunct2, THEN conjunct2, THEN conjunct2, THEN conjunct1]
      a [THEN conjunct2, THEN conjunct2, THEN conjunct2, THEN conjunct2]]
  show "fst (ensure_embedding_function env w) = Inr True"
    using o by (rule conjunct1)
  show "ef (snd (ensure_embedding_function env w)) = Some m"
    using o by (rule conjunct2 [THEN conjunct1])
  show "EMBEDDING_FUNCTION (snd (ensure_embedding_function env w)) = Some g"
    using o by (rule conjunct2 [THEN conjunct2])
qed

theorem ensure_skips_only_when_both_set_witness:
  "ensure_embedding_function env_healthy ready_world = (Inr True, ready_world) \<and>
   (\<exists>es. calls (snd (ensure_embedding_function env_healthy recovered_world)) =
      calls recovered_world @ first_call env_healthy recovered_world # es) \<and>
   fst (ensure_embedding_function env_healthy recovered_world) = Inr True \<and>
   ef (snd (ensure_embedding_function env_healthy recovered_world)) = Some (ExternalModel 1 True) \<and>
   EMBEDDING_FUNCTION (snd (ensure_embedding_function env_healthy recovered_world)) =
     Some (Wrapped 1)"
proof -
  have a: "ef ready_world \<noteq> None \<and> EMBEDDING_FUNCTION ready_world \<noteq> None"
    by (simp add: ready_world_def fresh_world_def)
  have b: "ef recovered_world = None \<or> EMBEDDING_FUNCTION recovered_world = None"
    by (simp add: recovered_world_def fresh_world_def)
  have c: "EMBEDDING_FUNCTION recovered_world = Some (DirectFallback default_model) \<and>
    ef recovered_world = None \<and>
    RAG_EMBEDDING_ENGINE (config recovered_world) \<noteq> [] \<and>
    get_ef env_healthy (calls recovered_world) (RAG_EMBEDDING_ENGINE (config recovered_world))
       (RAG_EMBEDDING_MODEL (config recovered_world))
       (RAG_EMBEDDING_MODEL_AUTO_UPDATE env_healthy) = Inr (Some (ExternalModel 1 True)) \<and>
    get_embedding_function env_healthy
       (calls recovered_world @ [GetEf (RAG_EMBEDDING_ENGINE (config recovered_world))
           (RAG_EMBEDDING_MODEL (config recovered_world))
           (RAG_EMBEDDING_MODEL_AUTO_UPDATE env_healthy) (Inr (Some (ExternalModel 1 True)))])
       (RAG_EMBEDDING_ENGINE (config recovered_world))
       (RAG_EMBEDDING_MODEL (config recovered_world)) (ExternalModel 1 True)
       (if RAG_EMBEDDING_ENGINE (config recovered_world) = ''openai''
        then RAG_OPENAI_API_BASE_URL (config recovered_world)
        else RAG_OLLAMA_BASE_URL (config recovered_world))
       (if RAG_EMBEDDING_ENGINE (config recovered_world) = ''openai''
        then RAG_OPENAI_API_KEY (config recovered_world)
        else RAG_OLLAMA_API_KEY (config recovered_world))
       (RAG_EMBEDDING_BATCH_SIZE (config recovered_world)) = Inr (Some (Wrapped 1))"
    by (simp add: recovered_world_def fresh_world_def openai_config_def demo_config_def
        env_healthy_def)
  note t1 = ensure_skips_only_when_both_set [of ready_world env_healthy]
  note t2 = ensure_skips_only_when_both_set [of recovered_world env_healthy
        "DirectFallback default_model" "ExternalModel 1 True" "Wrapped 1"]
  have 1: "ensure_embedding_function env_healthy ready_world = (Inr True, ready_world)"
    using t1 [THEN conjunct1] a by (rule mp)
  have 2: "\<exists>es. calls (snd (ensure_embedding_function env_healthy recovered_world)) =
      calls recovered_world @ first_call env_healthy recovered_world # es"
    using t2 [THEN conjunct2, THEN conjunct1] b by (rule mp)
  have 3: "fst (ensure_embedding_function env_healthy recovered_world) = Inr True \<and>
   ef (snd (ensure_embedding_function env_healthy recovered_world)) = Some (ExternalModel 1 True) \<and>
   EMBEDDING_FUNCTION (snd (ensure_embedding_function env_healthy recovered_world)) =
     Some (Wrapped 1)"
    using t2 [THEN conjunct2, THEN conjunct2] c by (rule mp)
  show ?thesis
    using 1 2 3 by (intro conjI) simp_all
qed






end
